theory Spec2Isabelle
  imports Complex_Main
begin

section \<open>Radio data collection: the IQ signal processing engine\<close>

text \<open>
  A shallow embedding of the numeric core of the repository: the IQ table operations of
  \<^verbatim>\<open>docs/signal_process/signal_processor.py\<close>, their fallback in
  \<^verbatim>\<open>radio_basic_toolkit_backup.py\<close>, and the synthesis, analysis and persistence
  operations of \<^verbatim>\<open>docs/signal_process/signal_processor_backup.py\<close>.

  NumPy's finite floating-point values are idealised as real (and complex) numbers, so
  rounding is not modelled. What NumPy does where the reals have no answer is written out:
  a reduction over an empty array that has no identity raises, the mean of an empty array and
  a division by zero give a non-finite value instead of raising. What the code takes from
  its surroundings is a parameter: the draws of the random generator, the clock, the largest
  array the machine can hold, the transform routine of the analysis, the file system.
\<close>

subsection \<open>NumPy values\<close>

text \<open>The Python exceptions that the modelled code can meet.\<close>

datatype error =
    ValueError_shape
  | ValueError_zero_size
  | ValueError_vstack
  | ValueError_negative_dimensions
  | ValueError_maximum_dimension
  | ValueError_object_array
  | ValueError_fft_points
  | ValueError_inhomogeneous
  | ValueError_empty_convolve
  | ValueError_not_an_archive
  | ZeroDivisionError
  | FileNotFoundError
  | KeyError
  | IndexError
  | MemoryError

text \<open>
  The Python class of each: what a caller that catches the exception can tell it by. The
  errors named \<open>ValueError_...\<close> are all instances of the one class \<^verbatim>\<open>ValueError\<close>.
\<close>

datatype py_exception =
    PyValueError
  | PyZeroDivisionError
  | PyFileNotFoundError
  | PyKeyError
  | PyIndexError
  | PyMemoryError

fun exception_class :: "error \<Rightarrow> py_exception" where
  "exception_class ZeroDivisionError = PyZeroDivisionError"
| "exception_class FileNotFoundError = PyFileNotFoundError"
| "exception_class KeyError = PyKeyError"
| "exception_class IndexError = PyIndexError"
| "exception_class MemoryError = PyMemoryError"
| "exception_class _ = PyValueError"

text \<open>
  A float or complex number as NumPy holds it: a finite value, or a non-finite one
  (\<open>nan\<close>, \<open>inf\<close>).
\<close>

datatype 'a npval = Fin 'a | NonFinite

type_synonym npfloat = "real npval"

type_synonym npcomplex = "complex npval"

text \<open>
  An array as the IQ code sees it: one-dimensional, or two-dimensional with its number of
  columns and its rows. Arrays of higher rank are not modelled.
\<close>

datatype ndarray = Array1 "real list" | Array2 nat "real list list"

fun shape :: "ndarray \<Rightarrow> nat list" where
  "shape (Array1 xs) = [length xs]"
| "shape (Array2 c rs) = [length rs, c]"

fun rows_of :: "ndarray \<Rightarrow> real list list" where
  "rows_of (Array1 xs) = []"
| "rows_of (Array2 c rs) = rs"

text \<open>The (n,2) table holding the given (I, Q) pairs.\<close>

definition iq_table :: "(real \<times> real) list \<Rightarrow> ndarray" where
  "iq_table ps = Array2 2 (map (\<lambda>p. [fst p, snd p]) ps)"

text \<open>\<^verbatim>\<open>np.mean\<close>: the mean of an empty array is \<open>nan\<close> (with a warning), not an exception.\<close>

definition np_mean :: "'a::field list \<Rightarrow> 'a npval" where
  "np_mean xs = (if xs = [] then NonFinite else Fin (sum_list xs / of_nat (length xs)))"

text \<open>
  \<^verbatim>\<open>np.std\<close>: the square root of the mean of the squared deviations from the mean
  (no degrees-of-freedom correction).
\<close>

definition np_std :: "real list \<Rightarrow> npfloat" where
  "np_std xs =
     (case np_mean xs of
        NonFinite \<Rightarrow> NonFinite
      | Fin m \<Rightarrow>
          (case np_mean (map (\<lambda>x. \<bar>x - m\<bar> ^ 2) xs) of
             NonFinite \<Rightarrow> NonFinite
           | Fin v \<Rightarrow> Fin (sqrt v)))"

text \<open>
  \<^verbatim>\<open>np.max\<close> and \<open>np.min\<close>: a reduction from the first element on; on an empty array
  they raise \<open>ValueError\<close> (zero-size array to reduction operation which has no identity).
\<close>

fun np_max :: "real list \<Rightarrow> error + real" where
  "np_max [] = Inl ValueError_zero_size"
| "np_max (x # xs) = Inr (foldl max x xs)"

fun np_min :: "real list \<Rightarrow> error + real" where
  "np_min [] = Inl ValueError_zero_size"
| "np_min (x # xs) = Inr (foldl min x xs)"

text \<open>
  \<^verbatim>\<open>np.where(xs > t, 0, xs)\<close>; a comparison with \<open>nan\<close> is false, so nothing is
  replaced then.
\<close>

fun np_where_gt :: "real list \<Rightarrow> npfloat \<Rightarrow> real list" where
  "np_where_gt xs NonFinite = xs"
| "np_where_gt xs (Fin t) = map (\<lambda>x. if x > t then 0 else x) xs"

subsection \<open>IQ tables: \<^verbatim>\<open>signal_processor.py\<close>\<close>

text \<open>
  \<^verbatim>\<open>np.array(iq_data_list, dtype=np.float32)\<close> on a list of rows: an empty list gives an
  empty one-dimensional array, rows of one length a two-dimensional array, ragged rows raise.
\<close>

definition np_array :: "real list list \<Rightarrow> error + ndarray" where
  "np_array rs =
     (case rs of
        [] \<Rightarrow> Inr (Array1 [])
      | r # _ \<Rightarrow>
          if list_all (\<lambda>r'. length r' = length r) rs then Inr (Array2 (length r) rs)
          else Inl ValueError_inhomogeneous)"

text \<open>
  \<^verbatim>\<open>np.vstack([iq_array, info_row])\<close> with a row of two columns: a one-dimensional array
  counts as a single row; the column counts must agree.
\<close>

fun np_vstack_row :: "ndarray \<Rightarrow> real list \<Rightarrow> error + ndarray" where
  "np_vstack_row (Array1 xs) r =
     (if length xs = length r then Inr (Array2 (length r) [xs, r]) else Inl ValueError_vstack)"
| "np_vstack_row (Array2 c rs) r =
     (if c = length r then Inr (Array2 c (rs @ [r])) else Inl ValueError_vstack)"

definition create_iq_array :: "real list list option \<Rightarrow> real option \<Rightarrow> error + ndarray" where
  "create_iq_array iq_data_list sample_rate =
     (case (case iq_data_list of
              None \<Rightarrow> Inr (Array2 2 (replicate 1000 [0, 0]))
            | Some rs \<Rightarrow> np_array rs) of
        Inl e \<Rightarrow> Inl e
      | Inr iq_array \<Rightarrow>
          (case sample_rate of
             None \<Rightarrow> Inr iq_array
           | Some sr \<Rightarrow> np_vstack_row iq_array [sr, 0]))"

record iq_stats =
  st_i_mean :: npfloat
  st_i_std :: npfloat
  st_q_mean :: npfloat
  st_q_std :: npfloat
  st_i_max :: real
  st_i_min :: real

record iq_result =
  original_i :: "real list"
  filtered_i :: "real list"
  q_components :: "real list"
  i_mean :: npfloat
  stats :: iq_stats
  first_200_samples :: "real list list"

text \<open>
  The test of \<^verbatim>\<open>process_iq_data\<close> for a trailing annotation row:
  \<^verbatim>\<open>iq_array.shape[0] > 1 and np.all(iq_array[-1, :] == [iq_array[-1, 0], 0])\<close>.
\<close>

definition last_row_is_annotation :: "real list list \<Rightarrow> bool" where
  "last_row_is_annotation rs =
     (length rs > 1 \<and> last rs ! 0 = last rs ! 0 \<and> last rs ! 1 = 0)"

definition process_iq_data :: "ndarray \<Rightarrow> error + iq_result" where
  "process_iq_data iq_array =
     (if length (shape iq_array) \<noteq> 2 \<or> shape iq_array ! 1 \<noteq> 2 then Inl ValueError_shape
      else
        let rs = rows_of iq_array;
            first_200 = take 200 rs;
            data = (if last_row_is_annotation rs then butlast rs else rs);
            q_comp = map (\<lambda>r. r ! 1) data;
            i_comp = map (\<lambda>r. r ! 0) data;
            m = np_mean i_comp;
            filt = np_where_gt i_comp m
        in (case np_max i_comp of
              Inl e \<Rightarrow> Inl e
            | Inr mx \<Rightarrow>
                (case np_min i_comp of
                   Inl e \<Rightarrow> Inl e
                 | Inr mn \<Rightarrow>
                     Inr \<lparr> original_i = i_comp, filtered_i = filt, q_components = q_comp,
                           i_mean = m,
                           stats = \<lparr> st_i_mean = m, st_i_std = np_std i_comp,
                                     st_q_mean = np_mean q_comp, st_q_std = np_std q_comp,
                                     st_i_max = mx, st_i_min = mn \<rparr>,
                           first_200_samples = first_200 \<rparr>)))"

subsection \<open>The specification's IQ operations, in its own words\<close>

text \<open>
  \<open>SplitAnnotation\<close>: the last row is a sample-rate annotation iff the table has more than
  one row and the last row's second column equals 0; the data then exclude that row.
\<close>

definition spec_SplitAnnotation :: "(real \<times> real) list \<Rightarrow> (real \<times> real) list \<times> bool" where
  "spec_SplitAnnotation ps =
     (if length ps > 1 \<and> snd (last ps) = 0 then (butlast ps, True) else (ps, False))"

text \<open>\<open>Statistics\<close>: the population mean and the population standard deviation.\<close>

definition pop_mean :: "real list \<Rightarrow> real" where
  "pop_mean xs = sum_list xs / real (length xs)"

definition pop_std :: "real list \<Rightarrow> real" where
  "pop_std xs = sqrt (pop_mean (map (\<lambda>x. (x - pop_mean xs) ^ 2) xs))"

text \<open>
  The specification's errors of the IQ operations, and its \<open>Statistics\<close>: over zero rows
  it surfaces an \<open>EmptyInputError\<close> and averages nothing; otherwise it gives the six
  statistics.
\<close>

datatype spec_error = ShapeError | EmptyInputError

definition spec_Statistics :: "(real \<times> real) list \<Rightarrow> spec_error + iq_stats" where
  "spec_Statistics d =
     (if d = [] then Inl EmptyInputError
      else Inr \<lparr> st_i_mean = Fin (pop_mean (map fst d)), st_i_std = Fin (pop_std (map fst d)),
                 st_q_mean = Fin (pop_mean (map snd d)), st_q_std = Fin (pop_std (map snd d)),
                 st_i_max = Max (set (map fst d)), st_i_min = Min (set (map fst d)) \<rparr>)"

text \<open>
  \<open>Filter\<close>, as the specification bounds its output: the call succeeds and no I value of
  the output exceeds the threshold used, the I-channel mean.
\<close>

definition filter_output_within_threshold :: "error + iq_result \<Rightarrow> bool" where
  "filter_output_within_threshold res =
     (case res of
        Inl e \<Rightarrow> False
      | Inr r \<Rightarrow>
          (case i_mean r of
             NonFinite \<Rightarrow> False
           | Fin t \<Rightarrow> list_all (\<lambda>x. x \<le> t) (filtered_i r)))"

subsection \<open>IQ tables: the fallback of \<^verbatim>\<open>radio_basic_toolkit_backup.py\<close>\<close>

text \<open>
  The fallback \<^verbatim>\<open>process_iq_data\<close>, defined when the import of the processor module
  fails. It has no shape check: indexing a one-dimensional array with two indices, or column 1
  of an array with fewer than two columns, raises \<open>IndexError\<close>. It returns no statistics.
\<close>

record iq_result_fallback =
  fb_original_i :: "real list"
  fb_filtered_i :: "real list"
  fb_q_components :: "real list"
  fb_i_mean :: npfloat

fun process_iq_data_fallback :: "ndarray \<Rightarrow> error + iq_result_fallback" where
  "process_iq_data_fallback (Array1 xs) = Inl IndexError"
| "process_iq_data_fallback (Array2 c rs) =
     (if c < 2 then Inl IndexError
      else
        let q_comp = map (\<lambda>r. r ! 1) (if length rs > 1 then butlast rs else rs);
            i_comp = map (\<lambda>r. r ! 0) (if length rs > 1 then butlast rs else rs);
            m = np_mean i_comp;
            filt = np_where_gt i_comp m
        in Inr \<lparr> fb_original_i = i_comp, fb_filtered_i = filt, fb_q_components = q_comp,
                 fb_i_mean = m \<rparr>)"

text \<open>
  The two variants agree on a table when both succeed and return equal \<open>i_mean\<close>,
  \<open>filtered_i\<close> and \<open>q_components\<close>.
\<close>

definition variants_agree :: "ndarray \<Rightarrow> bool" where
  "variants_agree a =
     (case (process_iq_data a, process_iq_data_fallback a) of
        (Inr r, Inr f) \<Rightarrow>
          i_mean r = fb_i_mean f \<and> filtered_i r = fb_filtered_i f
          \<and> q_components r = fb_q_components f
      | _ \<Rightarrow> False)"

subsection \<open>Synthesis: \<^verbatim>\<open>signal_processor_backup.py\<close>\<close>

text \<open>A scalar of the metadata mapping: a string or a number.\<close>

datatype pyval = PyStr string | PyFloat real

text \<open>
  The configuration snapshot. \<^verbatim>\<open>ConfigHandler\<close> starts from a default that holds the four
  keys read here and never removes a key, so the keys are fields; the values are whatever
  the configuration holds (\<^verbatim>\<open>update_config\<close> does not validate them).
\<close>

record config =
  cfg_center_freq :: real
  cfg_sample_rate :: real
  cfg_gain :: pyval
  cfg_device_id :: string

text \<open>
  \<^verbatim>\<open>SignalData\<close>. The sample type is a parameter: synthesis yields samples that may be
  non-finite, analysis is modelled on finite samples.
\<close>

record 'a SignalData =
  data :: "'a list"
  sample_rate :: real
  center_freq :: real
  timestamp :: real
  metadata :: "(string \<times> pyval) list"

text \<open>Python's \<^verbatim>\<open>int\<close> on a float: truncation toward zero.\<close>

definition py_int :: "real \<Rightarrow> int" where
  "py_int x = (if x \<ge> 0 then \<lfloor>x\<rfloor> else \<lceil>x\<rceil>)"

text \<open>
  The largest number of elements of a NumPy array, whatever the memory of the machine.
\<close>

definition np_max_dimension :: nat where
  "np_max_dimension = 2 ^ 63 - 1"

text \<open>
  \<^verbatim>\<open>np.random.normal(0, 0.1, n)\<close>: the next \<open>n\<close> draws of the generator, whose stream of
  draws is a parameter. A negative size raises \<open>ValueError\<close>, a size beyond NumPy's largest
  array raises \<open>ValueError\<close> too, and one the machine has no memory for raises
  \<open>MemoryError\<close>; \<open>max_size\<close> is the largest size for which the machine can hold the
  arrays of one acquisition.
\<close>

definition np_random_normal ::
  "(nat \<Rightarrow> real) \<Rightarrow> nat \<Rightarrow> nat \<Rightarrow> int \<Rightarrow> error + real list" where
  "np_random_normal draws max_size start n =
     (if n < 0 then Inl ValueError_negative_dimensions
      else if nat n > np_max_dimension then Inl ValueError_maximum_dimension
      else if nat n > max_size then Inl MemoryError
      else Inr (map draws [start ..< start + nat n]))"

text \<open>\<^verbatim>\<open>_simulate_signal_acquisition\<close>; every exception is caught and gives \<open>None\<close>.\<close>

definition simulate_signal_acquisition ::
  "config \<Rightarrow> (nat \<Rightarrow> real) \<Rightarrow> nat \<Rightarrow> real \<Rightarrow> complex list option" where
  "simulate_signal_acquisition cfg draws max_size duration =
     (let num_samples = py_int (cfg_sample_rate cfg * duration) in
      case np_random_normal draws max_size 0 num_samples of
        Inl e \<Rightarrow> None
      | Inr real_part \<Rightarrow>
          (case np_random_normal draws max_size (nat num_samples) num_samples of
             Inl e \<Rightarrow> None
           | Inr imag_part \<Rightarrow> Some (map2 Complex real_part imag_part)))"

text \<open>
  Array division by a scalar, elementwise: NumPy does not raise on a zero divisor, the
  quotient is \<open>nan\<close> or \<open>inf\<close> (with a warning).
\<close>

definition np_divide :: "complex \<Rightarrow> real \<Rightarrow> npcomplex" where
  "np_divide z m = (if m = 0 then NonFinite else Fin (z / complex_of_real m))"

text \<open>The normalisation step: \<^verbatim>\<open>signal / np.max(np.abs(signal))\<close>.\<close>

definition normalize_signal :: "complex list \<Rightarrow> error + npcomplex list" where
  "normalize_signal signal =
     (case np_max (map cmod signal) of
        Inl e \<Rightarrow> Inl e
      | Inr m \<Rightarrow> Inr (map (\<lambda>z. np_divide z m) signal))"

text \<open>Sums and real multiples of samples; a non-finite operand gives a non-finite result.\<close>

fun np_add :: "npcomplex \<Rightarrow> npcomplex \<Rightarrow> npcomplex" where
  "np_add (Fin a) (Fin b) = Fin (a + b)"
| "np_add _ _ = NonFinite"

fun np_scale :: "real \<Rightarrow> npcomplex \<Rightarrow> npcomplex" where
  "np_scale c (Fin a) = Fin (complex_of_real c * a)"
| "np_scale c NonFinite = NonFinite"

text \<open>
  \<^verbatim>\<open>np.convolve(a, v, mode='same')\<close>: entry \<open>k\<close> of the full convolution is the sum of
  \<open>a[j] * v[k - j]\<close> over the indices inside both arrays; the result is the centred part of
  the full convolution, as long as the longer argument. An empty argument raises.
\<close>

definition conv_at :: "npcomplex list \<Rightarrow> real list \<Rightarrow> nat \<Rightarrow> npcomplex" where
  "conv_at a v k =
     foldl np_add (Fin 0)
       (map (\<lambda>j. np_scale (v ! (k - j)) (a ! j))
          (filter (\<lambda>j. j \<le> k \<and> k - j < length v) [0 ..< length a]))"

definition np_convolve_same :: "npcomplex list \<Rightarrow> real list \<Rightarrow> error + npcomplex list" where
  "np_convolve_same a v =
     (if a = [] \<or> v = [] then Inl ValueError_empty_convolve
      else Inr (map (\<lambda>i. conv_at a v (i + (min (length a) (length v) - 1) div 2))
                  [0 ..< max (length a) (length v)]))"

text \<open>
  The body of \<^verbatim>\<open>_preprocess_signal\<close> inside its \<^verbatim>\<open>try\<close>: normalisation, then the
  moving average over \<open>min(100, len // 10)\<close> samples when that window exceeds 1.
\<close>

definition preprocess_body :: "complex list \<Rightarrow> error + npcomplex list" where
  "preprocess_body signal =
     (case normalize_signal signal of
        Inl e \<Rightarrow> Inl e
      | Inr signal_normalized \<Rightarrow>
          (let window_size = min 100 (length signal_normalized div 10) in
           if window_size > 1
           then np_convolve_same signal_normalized
                  (replicate window_size (1 / real window_size))
           else Inr signal_normalized))"

text \<open>\<^verbatim>\<open>_preprocess_signal\<close>: on any exception the input is returned as it came.\<close>

definition preprocess_signal :: "complex list \<Rightarrow> npcomplex list" where
  "preprocess_signal signal =
     (case preprocess_body signal of
        Inl e \<Rightarrow> map Fin signal
      | Inr signal_filtered \<Rightarrow> signal_filtered)"

text \<open>
  \<^verbatim>\<open>process_signal\<close>; the clock reading of \<^verbatim>\<open>time.time()\<close> is the parameter \<open>now\<close>,
  the generator's draws and the machine's largest array size are those of the acquisition.
\<close>

definition process_signal ::
  "config \<Rightarrow> (nat \<Rightarrow> real) \<Rightarrow> nat \<Rightarrow> real \<Rightarrow> real \<Rightarrow> npcomplex SignalData option" where
  "process_signal cfg draws max_size now duration =
     (case simulate_signal_acquisition cfg draws max_size duration of
        None \<Rightarrow> None
      | Some signal_data \<Rightarrow>
          Some \<lparr> data = preprocess_signal signal_data,
                 sample_rate = cfg_sample_rate cfg,
                 center_freq = cfg_center_freq cfg,
                 timestamp = now,
                 metadata = [(''device_id'', PyStr (cfg_device_id cfg)),
                             (''gain'', cfg_gain cfg),
                             (''duration'', PyFloat duration),
                             (''data_type'', PyStr ''complex64'')] \<rparr>)"

text \<open>\<^verbatim>\<open>DEFAULT_RADIO_CONFIG\<close>, and a generator whose every draw is 0.\<close>

definition DEFAULT_RADIO_CONFIG :: config where
  "DEFAULT_RADIO_CONFIG =
     \<lparr> cfg_center_freq = 98700000, cfg_sample_rate = 2400000, cfg_gain = PyStr ''auto'',
       cfg_device_id = ''rtl-sdr-01'' \<rparr>"

definition zero_draws :: "nat \<Rightarrow> real" where
  "zero_draws k = 0"

text \<open>
  The specification's sample count: \<open>round(sampleRate * durationSeconds)\<close>.
\<close>

definition spec_numSamples :: "real \<Rightarrow> real \<Rightarrow> int" where
  "spec_numSamples sr d = round (sr * d)"

text \<open>
  The specification's invariant of synthesis: a result that is a record has at least one
  sample.
\<close>

definition synthesis_result_nonempty :: "'a SignalData option \<Rightarrow> bool" where
  "synthesis_result_nonempty res = (case res of None \<Rightarrow> True | Some r \<Rightarrow> data r \<noteq> [])"

subsection \<open>Analysis: \<^verbatim>\<open>analyze_signal\<close>\<close>

text \<open>
  Arithmetic on floats that may be non-finite. The only non-finite operand these operations
  meet in the analysis is \<open>nan\<close> (the mean of an empty array), which every operation
  hands on. A division by zero gives a non-finite quotient, the logarithm of 0 is \<open>-inf\<close>
  and that of a negative number \<open>nan\<close>; NumPy warns and does not raise.
\<close>

fun npf_add :: "npfloat \<Rightarrow> npfloat \<Rightarrow> npfloat" where
  "npf_add (Fin a) (Fin b) = Fin (a + b)"
| "npf_add _ _ = NonFinite"

fun npf_mul :: "npfloat \<Rightarrow> npfloat \<Rightarrow> npfloat" where
  "npf_mul (Fin a) (Fin b) = Fin (a * b)"
| "npf_mul _ _ = NonFinite"

fun npf_div :: "npfloat \<Rightarrow> npfloat \<Rightarrow> npfloat" where
  "npf_div (Fin a) (Fin b) = (if b = 0 then NonFinite else Fin (a / b))"
| "npf_div _ _ = NonFinite"

fun np_log10 :: "npfloat \<Rightarrow> npfloat" where
  "np_log10 (Fin x) = (if x > 0 then Fin (log 10 x) else NonFinite)"
| "np_log10 NonFinite = NonFinite"

text \<open>
  \<^verbatim>\<open>np.var\<close> of a complex array: the mean of the squared magnitudes of the deviations from
  the mean, a real number.
\<close>

definition np_var :: "complex list \<Rightarrow> npfloat" where
  "np_var zs =
     (case np_mean zs of
        NonFinite \<Rightarrow> NonFinite
      | Fin mu \<Rightarrow> np_mean (map (\<lambda>z. (cmod (z - mu)) ^ 2) zs))"

text \<open>
  The discrete Fourier transform: \<open>A[k] = sum over m of a[m] * exp(-2 pi i m k / n)\<close>.
\<close>

definition dft :: "complex list \<Rightarrow> complex list" where
  "dft a =
     map (\<lambda>k. \<Sum>m\<leftarrow>[0 ..< length a].
                 a ! m * cis (- (2 * pi * real m * real k / real (length a))))
       [0 ..< length a]"

text \<open>
  \<^verbatim>\<open>np.fft.fft\<close>: on an empty array it raises \<open>ValueError\<close> (invalid number of FFT data
  points); otherwise it returns the transform as NumPy's routine computes it, which is the
  parameter \<open>fft\<close>. The routine computes \<open>dft\<close> up to the rounding of its floating-point
  steps; which index holds the largest magnitude can depend on that rounding, so the
  transform is taken as computed.
\<close>

definition np_fft ::
  "(complex list \<Rightarrow> complex list) \<Rightarrow> complex list \<Rightarrow> error + complex list" where
  "np_fft fft a = (if a = [] then Inl ValueError_fft_points else Inr (fft a))"

text \<open>
  \<^verbatim>\<open>np.fft.fftfreq(n, d)\<close>: with \<open>val = 1.0 / (n * d)\<close> and \<open>N = (n - 1) // 2 + 1\<close>, the
  integers \<open>0, ..., N - 1\<close> followed by \<open>-(n // 2), ..., -1\<close>, each times \<open>val\<close>.
\<close>

definition np_fftfreq :: "nat \<Rightarrow> real \<Rightarrow> error + real list" where
  "np_fftfreq n d =
     (if real n * d = 0 then Inl ZeroDivisionError
      else Inr (map (\<lambda>k. real_of_int k * (1 / (real n * d)))
                  ([0 .. int ((n - 1) div 2 + 1) - 1] @ [- int (n div 2) .. - 1])))"

text \<open>
  \<^verbatim>\<open>np.argmax\<close>: a scan that keeps the index of the largest value seen and replaces it
  only by a strictly larger one; on an empty array it raises \<open>ValueError\<close>.
\<close>

fun argmax_scan :: "real list \<Rightarrow> nat \<Rightarrow> nat \<Rightarrow> real \<Rightarrow> nat" where
  "argmax_scan [] i best_i best = best_i"
| "argmax_scan (x # xs) i best_i best =
     (if x > best then argmax_scan xs (Suc i) i x else argmax_scan xs (Suc i) best_i best)"

fun np_argmax :: "real list \<Rightarrow> error + nat" where
  "np_argmax [] = Inl ValueError_zero_size"
| "np_argmax (x # xs) = Inr (argmax_scan xs 1 0 x)"

text \<open>The analysis report, a mapping with six numeric entries.\<close>

record analysis_result =
  signal_power :: npfloat
  amplitude :: npfloat
  main_frequency :: real
  snr_estimate :: npfloat
  spectrum_peak :: real
  data_length :: nat

text \<open>
  The body of \<^verbatim>\<open>analyze_signal\<close> inside its \<^verbatim>\<open>try\<close>, on a record whose samples are
  finite, for the transform routine \<open>fft\<close>. \<^verbatim>\<open>1/signal_data.sample_rate\<close> is a Python
  division and raises on 0.
\<close>

definition analyze_body ::
  "(complex list \<Rightarrow> complex list) \<Rightarrow> complex SignalData \<Rightarrow> error + analysis_result" where
  "analyze_body fft signal_data =
     (let d = data signal_data;
          pw = np_mean (map (\<lambda>z. (cmod z) ^ 2) d);
          amp = np_mean (map cmod d)
      in case np_fft fft d of
           Inl e \<Rightarrow> Inl e
         | Inr fft_data \<Rightarrow>
             (let spectrum = map cmod fft_data in
              if sample_rate signal_data = 0 then Inl ZeroDivisionError
              else
                case np_fftfreq (length d) (1 / sample_rate signal_data) of
                  Inl e \<Rightarrow> Inl e
                | Inr freqs \<Rightarrow>
                    (case np_argmax spectrum of
                       Inl e \<Rightarrow> Inl e
                     | Inr main_freq_idx \<Rightarrow>
                         (case np_max spectrum of
                            Inl e \<Rightarrow> Inl e
                          | Inr peak \<Rightarrow>
                              Inr \<lparr> signal_power = pw,
                                    amplitude = amp,
                                    main_frequency = freqs ! main_freq_idx,
                                    snr_estimate =
                                      npf_mul (Fin 10)
                                        (np_log10 (npf_div pw
                                           (npf_add (np_var d) (Fin (1 / 10 ^ 10))))),
                                    spectrum_peak = peak,
                                    data_length = length d \<rparr>))))"

text \<open>\<^verbatim>\<open>analyze_signal\<close>: on any exception the empty mapping, here \<open>None\<close>.\<close>

definition analyze_signal ::
  "(complex list \<Rightarrow> complex list) \<Rightarrow> complex SignalData \<Rightarrow> analysis_result option" where
  "analyze_signal fft signal_data =
     (case analyze_body fft signal_data of Inl e \<Rightarrow> None | Inr a \<Rightarrow> Some a)"

subsection \<open>The specification's analysis, in its own words\<close>

text \<open>
  The power is the mean of the squared magnitudes, the amplitude the mean of the magnitudes,
  the variance of complex samples the population variance of the real parts plus that of the
  imaginary parts; bin \<open>k\<close> of \<open>N\<close> lies at \<open>k * sampleRate / N\<close> for \<open>k < N/2\<close> and at
  \<open>(k - N) * sampleRate / N\<close> otherwise.
\<close>

definition spec_power :: "complex list \<Rightarrow> real" where
  "spec_power zs = pop_mean (map (\<lambda>z. (cmod z) ^ 2) zs)"

definition spec_amplitude :: "complex list \<Rightarrow> real" where
  "spec_amplitude zs = pop_mean (map cmod zs)"

definition pop_var :: "real list \<Rightarrow> real" where
  "pop_var xs = pop_mean (map (\<lambda>x. (x - pop_mean xs) ^ 2) xs)"

definition spec_variance :: "complex list \<Rightarrow> real" where
  "spec_variance zs = pop_var (map Re zs) + pop_var (map Im zs)"

definition spec_bin_frequency :: "nat \<Rightarrow> nat \<Rightarrow> real \<Rightarrow> real" where
  "spec_bin_frequency k N sr =
     (if 2 * k < N then real k * sr / real N else (real k - real N) * sr / real N)"

subsection \<open>Persistence: \<^verbatim>\<open>save_signal_data\<close> and \<^verbatim>\<open>load_signal_data\<close>\<close>

text \<open>
  The archive that \<^verbatim>\<open>np.savez_compressed\<close> writes holds one array per keyword; an entry
  is \<open>None\<close> when the archive has no array of that name. The samples are a numeric array
  and the three floats zero-dimensional numeric arrays. The metadata mapping is a Python
  \<^verbatim>\<open>dict\<close>, which NumPy stores as a pickled array of objects.
\<close>

record npz_file =
  z_data :: "npcomplex list option"
  z_sample_rate :: "real option"
  z_center_freq :: "real option"
  z_timestamp :: "real option"
  z_metadata :: "(string \<times> pyval) list option"

text \<open>A file is such an archive, or something else that \<^verbatim>\<open>np.load\<close> cannot read as one.\<close>

datatype stored_file = NotNpz | Npz npz_file

text \<open>
  The file system: the files by path, and the paths at which a file can be written (its
  directories can be made and the file created).
\<close>

record filesystem =
  files :: "string \<Rightarrow> stored_file option"
  writable :: "string \<Rightarrow> bool"

text \<open>
  \<^verbatim>\<open>np.savez_compressed\<close> appends \<^verbatim>\<open>.npz\<close> to a file name that does not end with it.
\<close>

definition npz_name :: "string \<Rightarrow> string" where
  "npz_name p = (if drop (length p - 4) p = ''.npz'' then p else p @ ''.npz'')"

text \<open>
  \<^verbatim>\<open>save_signal_data\<close>: the new file system and the boolean returned; any exception of
  \<^verbatim>\<open>mkdir\<close> or of the write gives \<open>False\<close>.
\<close>

definition save_signal_data ::
  "filesystem \<Rightarrow> npcomplex SignalData \<Rightarrow> string \<Rightarrow> filesystem \<times> bool" where
  "save_signal_data fs signal_data file_path =
     (if writable fs (npz_name file_path)
      then (fs \<lparr> files := (files fs) (npz_name file_path \<mapsto>
                    Npz \<lparr> z_data = Some (data signal_data),
                          z_sample_rate = Some (sample_rate signal_data),
                          z_center_freq = Some (center_freq signal_data),
                          z_timestamp = Some (timestamp signal_data),
                          z_metadata = Some (metadata signal_data) \<rparr>) \<rparr>, True)
      else (fs, False))"

text \<open>
  Reading a pickled array of objects out of an archive: \<^verbatim>\<open>np.load\<close> refuses it with a
  \<open>ValueError\<close> unless it was called with \<^verbatim>\<open>allow_pickle=True\<close>.
\<close>

definition npz_object :: "bool \<Rightarrow> 'a \<Rightarrow> error + 'a" where
  "npz_object allow_pickle obj = (if allow_pickle then Inr obj else Inl ValueError_object_array)"

text \<open>
  The body of \<^verbatim>\<open>load_signal_data\<close> inside its \<^verbatim>\<open>try\<close>. The arrays are read in the order
  of the constructor's arguments; \<^verbatim>\<open>np.load(file_path)\<close> is called without
  \<^verbatim>\<open>allow_pickle\<close>, whose default is \<open>False\<close>. Metadata absent from the archive are
  replaced by the empty mapping.
\<close>

definition load_body :: "filesystem \<Rightarrow> string \<Rightarrow> error + npcomplex SignalData" where
  "load_body fs file_path =
     (case files fs file_path of
        None \<Rightarrow> Inl FileNotFoundError
      | Some NotNpz \<Rightarrow> Inl ValueError_not_an_archive
      | Some (Npz z) \<Rightarrow>
          (case z_data z of
             None \<Rightarrow> Inl KeyError
           | Some d \<Rightarrow>
               (case z_sample_rate z of
                  None \<Rightarrow> Inl KeyError
                | Some sr \<Rightarrow>
                    (case z_center_freq z of
                       None \<Rightarrow> Inl KeyError
                     | Some cf \<Rightarrow>
                         (case z_timestamp z of
                            None \<Rightarrow> Inl KeyError
                          | Some ts \<Rightarrow>
                              (case (case z_metadata z of
                                       None \<Rightarrow> Inr []
                                     | Some m \<Rightarrow> npz_object False m) of
                                 Inl e \<Rightarrow> Inl e
                               | Inr md \<Rightarrow>
                                   Inr \<lparr> data = d, sample_rate = sr, center_freq = cf,
                                         timestamp = ts, metadata = md \<rparr>))))))"

text \<open>\<^verbatim>\<open>load_signal_data\<close>: on any exception \<open>None\<close>.\<close>

definition load_signal_data :: "filesystem \<Rightarrow> string \<Rightarrow> npcomplex SignalData option" where
  "load_signal_data fs file_path =
     (case load_body fs file_path of Inl e \<Rightarrow> None | Inr r \<Rightarrow> Some r)"

subsection \<open>The specification's \<open>Load\<close>, in its own words\<close>

text \<open>
  \<open>Load\<close> fails with \<open>PersistError("not found")\<close> if the container is absent and with
  \<open>PersistError("corrupt")\<close> if required fields are missing or malformed; the container
  holds the five fields of a record.
\<close>

datatype persist_error = NotFound | Corrupt

definition spec_Load :: "filesystem \<Rightarrow> string \<Rightarrow> persist_error + npcomplex SignalData" where
  "spec_Load fs p =
     (case files fs p of
        None \<Rightarrow> Inl NotFound
      | Some NotNpz \<Rightarrow> Inl Corrupt
      | Some (Npz z) \<Rightarrow>
          (case (z_data z, z_sample_rate z, z_center_freq z, z_timestamp z, z_metadata z) of
             (Some d, Some sr, Some cf, Some ts, Some m) \<Rightarrow>
               Inr \<lparr> data = d, sample_rate = sr, center_freq = cf, timestamp = ts,
                     metadata = m \<rparr>
           | _ \<Rightarrow> Inl Corrupt))"

text \<open>Concrete file systems and a record for the examples.\<close>

definition empty_fs :: filesystem where
  "empty_fs = \<lparr> files = (\<lambda>p. None), writable = (\<lambda>p. True) \<rparr>"

definition example_record :: "npcomplex SignalData" where
  "example_record =
     \<lparr> data = [Fin 1], sample_rate = 2400000, center_freq = 98700000, timestamp = 0,
       metadata = [(''device_id'', PyStr ''rtl-sdr-01''), (''gain'', PyStr ''auto''),
                   (''duration'', PyFloat 1), (''data_type'', PyStr ''complex64'')] \<rparr>"

definition archive_without_metadata :: npz_file where
  "archive_without_metadata =
     \<lparr> z_data = Some [Fin 1], z_sample_rate = Some 2400000, z_center_freq = Some 98700000,
       z_timestamp = Some 0, z_metadata = None \<rparr>"

definition archive_without_data :: npz_file where
  "archive_without_data =
     \<lparr> z_data = None, z_sample_rate = Some 2400000, z_center_freq = Some 98700000,
       z_timestamp = Some 0, z_metadata = None \<rparr>"

definition fs_with :: "string \<Rightarrow> stored_file \<Rightarrow> filesystem" where
  "fs_with p f = \<lparr> files = (\<lambda>q. if q = p then Some f else None), writable = (\<lambda>q. True) \<rparr>"

section \<open>Properties of the IQ table operations\<close>

subsection \<open>The code on an (n,2) table\<close>

lemma shape_iq_table: "shape (iq_table ps) = [length ps, 2]"
  by (simp add: iq_table_def)

lemma rows_of_iq_table: "rows_of (iq_table ps) = map (\<lambda>p. [fst p, snd p]) ps"
  by (simp add: iq_table_def)

lemma annotation_iq_rows:
  "last_row_is_annotation (map (\<lambda>p. [fst p, snd p]) ps) = snd (spec_SplitAnnotation ps)"
proof (cases "ps = []")
  case True
  then show ?thesis by (simp add: last_row_is_annotation_def spec_SplitAnnotation_def)
next
  case False
  then show ?thesis
    by (simp add: last_row_is_annotation_def spec_SplitAnnotation_def last_map)
qed

lemma data_rows_iq:
  "(if last_row_is_annotation (map (\<lambda>p. [fst p, snd p]) ps)
    then butlast (map (\<lambda>p. [fst p, snd p]) ps) else map (\<lambda>p. [fst p, snd p]) ps)
   = map (\<lambda>p. [fst p, snd p]) (fst (spec_SplitAnnotation ps))"
  unfolding annotation_iq_rows by (simp add: spec_SplitAnnotation_def map_butlast)

lemma split_nonempty: "ps \<noteq> [] \<Longrightarrow> fst (spec_SplitAnnotation ps) \<noteq> []"
  by (cases ps rule: rev_cases) (auto simp: spec_SplitAnnotation_def)

lemma np_max_nonempty: "xs \<noteq> [] \<Longrightarrow> np_max xs = Inr (foldl max (hd xs) (tl xs))"
  by (cases xs) simp_all

lemma np_min_nonempty: "xs \<noteq> [] \<Longrightarrow> np_min xs = Inr (foldl min (hd xs) (tl xs))"
  by (cases xs) simp_all

lemma process_iq_data_iq_table:
  assumes "ps \<noteq> []"
  defines "d \<equiv> fst (spec_SplitAnnotation ps)"
  shows "process_iq_data (iq_table ps) =
     Inr \<lparr> original_i = map fst d,
           filtered_i = np_where_gt (map fst d) (np_mean (map fst d)),
           q_components = map snd d,
           i_mean = np_mean (map fst d),
           stats = \<lparr> st_i_mean = np_mean (map fst d), st_i_std = np_std (map fst d),
                     st_q_mean = np_mean (map snd d), st_q_std = np_std (map snd d),
                     st_i_max = foldl max (hd (map fst d)) (tl (map fst d)),
                     st_i_min = foldl min (hd (map fst d)) (tl (map fst d)) \<rparr>,
           first_200_samples = take 200 (map (\<lambda>p. [fst p, snd p]) ps) \<rparr>"
proof -
  have ne: "map fst d \<noteq> []" using assms split_nonempty by simp
  show ?thesis
    unfolding process_iq_data_def shape_iq_table rows_of_iq_table Let_def data_rows_iq
    using ne by (simp add: d_def np_max_nonempty np_min_nonempty comp_def)
qed

lemma process_iq_data_empty: "process_iq_data (iq_table []) = Inl ValueError_zero_size"
  by (simp add: process_iq_data_def iq_table_def last_row_is_annotation_def)

lemma np_mean_pop: "xs \<noteq> [] \<Longrightarrow> np_mean xs = Fin (pop_mean xs)"
  by (simp add: np_mean_def pop_mean_def)

lemma np_std_pop: "xs \<noteq> [] \<Longrightarrow> np_std xs = Fin (pop_std xs)"
  by (simp add: np_std_def np_mean_def pop_std_def pop_mean_def)

lemma foldl_max_Max: "foldl max x xs = Max (set (x # xs))"
proof (induction xs arbitrary: x)
  case Nil
  then show ?case by simp
next
  case (Cons y ys)
  have "Max (set (x # y # ys)) = Max (insert (max x y) (set ys))"
    by (cases "ys = []") (simp_all add: max.assoc)
  with Cons show ?case by simp
qed

lemma foldl_min_Min: "foldl min x xs = Min (set (x # xs))"
proof (induction xs arbitrary: x)
  case Nil
  then show ?case by simp
next
  case (Cons y ys)
  have "Min (set (x # y # ys)) = Min (insert (min x y) (set ys))"
    by (cases "ys = []") (simp_all add: min.assoc)
  with Cons show ?case by simp
qed

lemma foldl_max_hd_tl: "xs \<noteq> [] \<Longrightarrow> foldl max (hd xs) (tl xs) = Max (set xs)"
  by (cases xs) (simp_all only: foldl_max_Max list.sel, simp)

lemma foldl_min_hd_tl: "xs \<noteq> [] \<Longrightarrow> foldl min (hd xs) (tl xs) = Min (set xs)"
  by (cases xs) (simp_all only: foldl_min_Min list.sel, simp)

lemma np_where_gt_length: "length (np_where_gt xs t) = length xs"
  by (cases t) simp_all

lemma np_where_gt_nth:
  "k < length xs \<Longrightarrow> np_where_gt xs (Fin t) ! k = (if xs ! k > t then 0 else xs ! k)"
  by simp

lemma np_where_gt_bound: "x \<in> set (np_where_gt xs (Fin t)) \<Longrightarrow> x \<le> max t 0"
  by auto

subsection \<open>The claims about IQ tables\<close>

text \<open>
  Claim C5. The last row counts as a sample-rate annotation iff the table has more than one
  row and the last row's Q column equals 0, and that row is then excluded from the returned
  I and Q data. The table built from the rows (1,2), (3,4), (5,6) with the sample rate 2.4e6
  appended has four rows, the last being (2.4e6, 0), and the data returned for it are the
  three original rows.
\<close>

theorem split_annotation_last_row:
  "(last_row_is_annotation (rows_of (iq_table ps)) \<longleftrightarrow> 1 < length ps \<and> snd (last ps) = 0)
   \<and> (ps \<noteq> [] \<longrightarrow>
        (\<exists>r. process_iq_data (iq_table ps) = Inr r
           \<and> original_i r = map fst (if 1 < length ps \<and> snd (last ps) = 0 then butlast ps else ps)
           \<and> q_components r = map snd (if 1 < length ps \<and> snd (last ps) = 0 then butlast ps else ps)))
   \<and> create_iq_array (Some [[1, 2], [3, 4], [5, 6]]) (Some 2400000)
       = Inr (iq_table [(1, 2), (3, 4), (5, 6), (2400000, 0)])
   \<and> (\<exists>r. process_iq_data (iq_table [(1, 2), (3, 4), (5, 6), (2400000, 0)]) = Inr r
          \<and> original_i r = [1, 3, 5] \<and> q_components r = [2, 4, 6])"
proof (intro conjI impI)
  show "last_row_is_annotation (rows_of (iq_table ps)) \<longleftrightarrow> 1 < length ps \<and> snd (last ps) = 0"
    by (simp add: rows_of_iq_table annotation_iq_rows spec_SplitAnnotation_def)
next
  assume "ps \<noteq> []"
  then show "\<exists>r. process_iq_data (iq_table ps) = Inr r
           \<and> original_i r = map fst (if 1 < length ps \<and> snd (last ps) = 0 then butlast ps else ps)
           \<and> q_components r = map snd (if 1 < length ps \<and> snd (last ps) = 0 then butlast ps else ps)"
    by (simp add: process_iq_data_iq_table spec_SplitAnnotation_def)
next
  show "create_iq_array (Some [[1, 2], [3, 4], [5, 6]]) (Some 2400000)
       = Inr (iq_table [(1, 2), (3, 4), (5, 6), (2400000, 0)])"
    by (simp add: create_iq_array_def np_array_def iq_table_def)
next
  show "\<exists>r. process_iq_data (iq_table [(1, 2), (3, 4), (5, 6), (2400000, 0)]) = Inr r
          \<and> original_i r = [1, 3, 5] \<and> q_components r = [2, 4, 6]"
    by (simp add: process_iq_data_iq_table spec_SplitAnnotation_def)
qed

text \<open>The theorem of C5 at a two-row table whose last row has Q = 0.\<close>

theorem split_annotation_last_row_witness:
  "\<exists>r. process_iq_data (iq_table [(1, 2), (3, 0)]) = Inr r
      \<and> original_i r = [1] \<and> q_components r = [2]"
  using split_annotation_last_row [of "[(1, 2), (3, 0)]"] by simp

text \<open>
  Claim C7, as amended. The statistics are the population mean and standard deviation of the
  I and Q columns and the minimum and maximum of the I column, over the data left after the
  annotation split, as the specification's \<open>Statistics\<close> gives them; for the I column
  1, 3, 5 the mean is 3, the minimum 1, the maximum 5. There is no check for empty input: on
  a table with no rows the mean and the standard deviation are taken over zero samples and
  are \<open>nan\<close>, and the call then fails in \<^verbatim>\<open>np.max\<close> with NumPy's \<open>ValueError\<close> for a
  reduction over a zero-size array, an exception of the same class as the shape error, and
  returns no value.
\<close>

theorem statistics_population:
  "np_mean (map (\<lambda>r. r ! 0) (rows_of (iq_table []))) = NonFinite
   \<and> np_std (map (\<lambda>r. r ! 0) (rows_of (iq_table []))) = NonFinite
   \<and> process_iq_data (iq_table []) = Inl ValueError_zero_size
   \<and> exception_class ValueError_zero_size = exception_class ValueError_shape
   \<and> (ps \<noteq> [] \<longrightarrow>
        (\<exists>r. process_iq_data (iq_table ps) = Inr r
           \<and> spec_Statistics (fst (spec_SplitAnnotation ps)) = Inr (stats r)
           \<and> st_i_mean (stats r) = Fin (pop_mean (map fst (fst (spec_SplitAnnotation ps))))
           \<and> st_i_std (stats r) = Fin (pop_std (map fst (fst (spec_SplitAnnotation ps))))
           \<and> st_q_mean (stats r) = Fin (pop_mean (map snd (fst (spec_SplitAnnotation ps))))
           \<and> st_q_std (stats r) = Fin (pop_std (map snd (fst (spec_SplitAnnotation ps))))
           \<and> st_i_max (stats r) = Max (set (map fst (fst (spec_SplitAnnotation ps))))
           \<and> st_i_min (stats r) = Min (set (map fst (fst (spec_SplitAnnotation ps))))))
   \<and> (\<exists>r. process_iq_data (iq_table [(1, 2), (3, 4), (5, 6)]) = Inr r
          \<and> st_i_mean (stats r) = Fin 3 \<and> st_i_min (stats r) = 1 \<and> st_i_max (stats r) = 5)"
proof (intro conjI impI)
  show "np_mean (map (\<lambda>r. r ! 0) (rows_of (iq_table []))) = NonFinite"
    by (simp add: iq_table_def np_mean_def)
next
  show "np_std (map (\<lambda>r. r ! 0) (rows_of (iq_table []))) = NonFinite"
    by (simp add: iq_table_def np_std_def np_mean_def)
next
  show "process_iq_data (iq_table []) = Inl ValueError_zero_size"
    by (rule process_iq_data_empty)
next
  show "exception_class ValueError_zero_size = exception_class ValueError_shape"
    by simp
next
  assume ne: "ps \<noteq> []"
  define d where "d = fst (spec_SplitAnnotation ps)"
  have dne: "d \<noteq> []" "map fst d \<noteq> []" "map snd d \<noteq> []"
    using ne split_nonempty d_def by simp_all
  show "\<exists>r. process_iq_data (iq_table ps) = Inr r
           \<and> spec_Statistics (fst (spec_SplitAnnotation ps)) = Inr (stats r)
           \<and> st_i_mean (stats r) = Fin (pop_mean (map fst (fst (spec_SplitAnnotation ps))))
           \<and> st_i_std (stats r) = Fin (pop_std (map fst (fst (spec_SplitAnnotation ps))))
           \<and> st_q_mean (stats r) = Fin (pop_mean (map snd (fst (spec_SplitAnnotation ps))))
           \<and> st_q_std (stats r) = Fin (pop_std (map snd (fst (spec_SplitAnnotation ps))))
           \<and> st_i_max (stats r) = Max (set (map fst (fst (spec_SplitAnnotation ps))))
           \<and> st_i_min (stats r) = Min (set (map fst (fst (spec_SplitAnnotation ps))))"
    unfolding d_def [symmetric] process_iq_data_iq_table [OF ne, folded d_def]
    using dne
    by (simp add: np_mean_pop np_std_pop foldl_max_hd_tl foldl_min_hd_tl spec_Statistics_def)
next
  have ne: "[(1, 2), (3, 4), (5, 6)] \<noteq> ([] :: (real \<times> real) list)" by simp
  show "\<exists>r. process_iq_data (iq_table [(1, 2), (3, 4), (5, 6)]) = Inr r
          \<and> st_i_mean (stats r) = Fin 3 \<and> st_i_min (stats r) = 1 \<and> st_i_max (stats r) = 5"
    by (simp add: process_iq_data_iq_table [OF ne] spec_SplitAnnotation_def np_mean_def)
qed

text \<open>
  Claim C7 as stated fails. On the table with no rows the specification's \<open>Statistics\<close>
  surfaces an \<open>EmptyInputError\<close>; the code averages over the zero samples, the mean being
  \<open>nan\<close>, and what it raises afterwards is a \<^verbatim>\<open>ValueError\<close>, as it does for an array of
  three columns, so that a caller cannot tell the empty input from the malformed one by the
  exception.
\<close>

theorem empty_input_error_is_generic:
  "spec_Statistics [] = Inl EmptyInputError
   \<and> np_mean (map (\<lambda>r. r ! 0) (rows_of (iq_table []))) = NonFinite
   \<and> map_sum exception_class stats (process_iq_data (iq_table [])) = Inl PyValueError
   \<and> map_sum exception_class stats (process_iq_data (Array2 3 [])) = Inl PyValueError"
  by (simp add: spec_Statistics_def process_iq_data_empty process_iq_data_def iq_table_def
        np_mean_def)

text \<open>The theorem of C7 at the table with rows (2,1) and (4,1).\<close>

theorem statistics_population_witness:
  "\<exists>r. process_iq_data (iq_table [(2, 1), (4, 1)]) = Inr r
      \<and> st_i_mean (stats r) = Fin 3 \<and> st_i_std (stats r) = Fin 1
      \<and> st_q_mean (stats r) = Fin 1 \<and> st_q_std (stats r) = Fin 0
      \<and> st_i_max (stats r) = 4 \<and> st_i_min (stats r) = 2"
  using statistics_population [of "[(2, 1), (4, 1)]"]
  by (simp add: spec_SplitAnnotation_def pop_mean_def pop_std_def) blast

text \<open>
  Claim C3, as amended. \<^verbatim>\<open>np.where(xs > t, 0, xs)\<close> leaves no value above
  \<open>max t 0\<close>, for every threshold \<open>t\<close>. For every table with at least one row the
  filter of \<^verbatim>\<open>process_iq_data\<close> uses the mean \<open>m\<close> of the I column of the data as its
  threshold: the filtered column has the length of the I column, every I value strictly
  greater than \<open>m\<close> is replaced by 0 and every other one is kept, the I and Q columns
  returned are those of the data, and no filtered value exceeds \<open>max m 0\<close>.
\<close>

theorem filter_above_mean:
  "(\<forall>x \<in> set (np_where_gt xs (Fin t)). x \<le> max t 0)
   \<and> (ps \<noteq> [] \<longrightarrow>
        (\<exists>r m. process_iq_data (iq_table ps) = Inr r
           \<and> original_i r = map fst (fst (spec_SplitAnnotation ps))
           \<and> q_components r = map snd (fst (spec_SplitAnnotation ps))
           \<and> i_mean r = Fin m \<and> m = pop_mean (original_i r)
           \<and> length (filtered_i r) = length (original_i r)
           \<and> (\<forall>k < length (original_i r).
                 filtered_i r ! k = (if original_i r ! k > m then 0 else original_i r ! k))
           \<and> (\<forall>x \<in> set (filtered_i r). x \<le> max m 0)))"
proof (intro conjI impI)
  show "\<forall>x \<in> set (np_where_gt xs (Fin t)). x \<le> max t 0"
    using np_where_gt_bound by blast
next
  assume ne: "ps \<noteq> []"
  define d where "d = fst (spec_SplitAnnotation ps)"
  define m where "m = pop_mean (map fst d)"
  have dne: "map fst d \<noteq> []"
    using ne split_nonempty d_def by simp
  have mean: "np_mean (map fst d) = Fin m"
    using dne by (simp add: np_mean_pop m_def)
  obtain r where r: "process_iq_data (iq_table ps) = Inr r"
      "original_i r = map fst d" "q_components r = map snd d"
      "i_mean r = np_mean (map fst d)"
      "filtered_i r = np_where_gt (map fst d) (np_mean (map fst d))"
    unfolding d_def using process_iq_data_iq_table [OF ne] by simp
  have f: "filtered_i r = np_where_gt (original_i r) (Fin m)"
    using r mean by simp
  have "length (filtered_i r) = length (original_i r)"
    unfolding f by (rule np_where_gt_length)
  moreover have "\<forall>k < length (original_i r).
      filtered_i r ! k = (if original_i r ! k > m then 0 else original_i r ! k)"
    unfolding f using np_where_gt_nth by blast
  moreover have "\<forall>x \<in> set (filtered_i r). x \<le> max m 0"
    unfolding f using np_where_gt_bound by blast
  moreover have "i_mean r = Fin m" "m = pop_mean (original_i r)"
    using r mean m_def by simp_all
  ultimately show "\<exists>r m. process_iq_data (iq_table ps) = Inr r
           \<and> original_i r = map fst (fst (spec_SplitAnnotation ps))
           \<and> q_components r = map snd (fst (spec_SplitAnnotation ps))
           \<and> i_mean r = Fin m \<and> m = pop_mean (original_i r)
           \<and> length (filtered_i r) = length (original_i r)
           \<and> (\<forall>k < length (original_i r).
                 filtered_i r ! k = (if original_i r ! k > m then 0 else original_i r ! k))
           \<and> (\<forall>x \<in> set (filtered_i r). x \<le> max m 0)"
    using r(1,2,3) unfolding d_def by blast
qed

text \<open>
  The theorem of C3 at the threshold -3 and at a table whose I mean is negative.
\<close>

theorem filter_above_mean_witness:
  "list_all (\<lambda>x. x \<le> 0) (np_where_gt [5, - 7] (Fin (- 3)))
   \<and> (\<exists>r. process_iq_data (iq_table [(- 1, 1), (- 3, 1)]) = Inr r
          \<and> i_mean r = Fin (- 2) \<and> list_all (\<lambda>x. x \<le> 0) (filtered_i r))"
  using filter_above_mean [of "[5, - 7]" "- 3" "[(- 1, 1), (- 3, 1)]"]
  by (auto simp: spec_SplitAnnotation_def pop_mean_def list_all_iff)

text \<open>
  Claim C3 as stated fails: with the I column -1, -3 the threshold is -2, the value -1 is
  replaced by 0, and 0 exceeds the threshold.
\<close>

theorem filter_exceeds_negative_mean:
  "\<not> filter_output_within_threshold (process_iq_data (iq_table [(-1, 1), (-3, 1)]))"
  by (simp add: filter_output_within_threshold_def process_iq_data_iq_table
        spec_SplitAnnotation_def np_mean_def)

subsection \<open>The two variants of the IQ processing step\<close>

lemma process_iq_data_fallback_iq_table:
  "process_iq_data_fallback (iq_table ps) =
     Inr \<lparr> fb_original_i = map fst (if length ps > 1 then butlast ps else ps),
           fb_filtered_i = np_where_gt (map fst (if length ps > 1 then butlast ps else ps))
                             (np_mean (map fst (if length ps > 1 then butlast ps else ps))),
           fb_q_components = map snd (if length ps > 1 then butlast ps else ps),
           fb_i_mean = np_mean (map fst (if length ps > 1 then butlast ps else ps)) \<rparr>"
  by (simp add: iq_table_def Let_def map_butlast comp_def)

lemma variants_agree_when_annotated:
  assumes "ps \<noteq> []" and "length ps > 1 \<longrightarrow> snd (last ps) = 0"
  shows "variants_agree (iq_table ps)"
proof -
  have "fst (spec_SplitAnnotation ps) = (if length ps > 1 then butlast ps else ps)"
    using assms(2) by (simp add: spec_SplitAnnotation_def)
  then show ?thesis
    unfolding variants_agree_def process_iq_data_iq_table [OF assms(1)]
      process_iq_data_fallback_iq_table
    by simp
qed

text \<open>
  Claim C9 fails on the code. On the two-row table (1,2), (3,4), which carries no annotation
  row, the processor keeps both rows (mean 2, filtered I column 1, 0, Q column 2, 4) while
  the fallback drops the last row (mean 1, filtered I column 1, Q column 2).
\<close>

theorem variants_differ_without_annotation:
  "process_iq_data_fallback (iq_table [(1, 2), (3, 4)])
     = Inr \<lparr> fb_original_i = [1], fb_filtered_i = [1], fb_q_components = [2],
             fb_i_mean = Fin 1 \<rparr>
   \<and> (case process_iq_data (iq_table [(1, 2), (3, 4)]) of
        Inl e \<Rightarrow> False
      | Inr r \<Rightarrow> i_mean r = Fin 2 \<and> filtered_i r = [1, 0] \<and> q_components r = [2, 4])
   \<and> \<not> variants_agree (iq_table [(1, 2), (3, 4)])"
proof -
  have ne: "[(1, 2), (3, 4)] \<noteq> ([] :: (real \<times> real) list)" by simp
  show ?thesis
    unfolding variants_agree_def process_iq_data_iq_table [OF ne]
      process_iq_data_fallback_iq_table
    by (simp add: spec_SplitAnnotation_def np_mean_def)
qed

text \<open>The two variants on that table return different means.\<close>

theorem variants_differ_without_annotation_witness:
  "map_sum id fb_i_mean (process_iq_data_fallback (iq_table [(1, 2), (3, 4)]))
     \<noteq> map_sum id i_mean (process_iq_data (iq_table [(1, 2), (3, 4)]))"
  using variants_differ_without_annotation
  by (auto split: sum.splits)

section \<open>Properties of synthesis\<close>

subsection \<open>Acquisition and preprocessing\<close>

lemma np_max_Max: "xs \<noteq> [] \<Longrightarrow> np_max xs = Inr (Max (set xs))"
  by (simp add: np_max_nonempty foldl_max_hd_tl)

lemma np_random_normal_neg:
  "n < 0 \<Longrightarrow> np_random_normal draws max_size s n = Inl ValueError_negative_dimensions"
  by (simp add: np_random_normal_def)

lemma np_random_normal_too_large:
  "int (min max_size np_max_dimension) < n \<Longrightarrow> \<exists>e. np_random_normal draws max_size s n = Inl e"
  by (auto simp: np_random_normal_def)

lemma np_random_normal_fits:
  "0 \<le> n \<Longrightarrow> n \<le> int (min max_size np_max_dimension) \<Longrightarrow>
   np_random_normal draws max_size s n = Inr (map draws [s ..< s + nat n])"
  by (auto simp: np_random_normal_def)

lemma simulate_negative:
  "py_int (cfg_sample_rate cfg * duration) < 0 \<Longrightarrow>
   simulate_signal_acquisition cfg draws max_size duration = None"
  by (simp add: simulate_signal_acquisition_def Let_def np_random_normal_neg)

lemma simulate_too_large:
  assumes "int (min max_size np_max_dimension) < py_int (cfg_sample_rate cfg * duration)"
  shows "simulate_signal_acquisition cfg draws max_size duration = None"
proof -
  obtain e where "np_random_normal draws max_size 0 (py_int (cfg_sample_rate cfg * duration)) = Inl e"
    using np_random_normal_too_large [OF assms] by blast
  then show ?thesis by (simp add: simulate_signal_acquisition_def Let_def)
qed

lemma simulate_fits:
  assumes "0 \<le> py_int (cfg_sample_rate cfg * duration)"
    and "py_int (cfg_sample_rate cfg * duration) \<le> int (min max_size np_max_dimension)"
  shows "\<exists>zs. simulate_signal_acquisition cfg draws max_size duration = Some zs
            \<and> length zs = nat (py_int (cfg_sample_rate cfg * duration))"
  using assms
  by (simp add: simulate_signal_acquisition_def Let_def np_random_normal_fits)

lemma normalize_empty: "normalize_signal [] = Inl ValueError_zero_size"
  by (simp add: normalize_signal_def)

lemma normalize_nonempty:
  "signal \<noteq> [] \<Longrightarrow>
   normalize_signal signal = Inr (map (\<lambda>z. np_divide z (Max (cmod ` set signal))) signal)"
  by (simp add: normalize_signal_def np_max_Max)

lemma normalize_length: "normalize_signal signal = Inr ys \<Longrightarrow> length ys = length signal"
  by (auto simp: normalize_signal_def split: sum.splits)

lemma normalize_Inl_iff: "(\<exists>e. normalize_signal signal = Inl e) \<longleftrightarrow> signal = []"
  by (cases signal) (simp_all add: normalize_signal_def)

lemma np_convolve_same_length:
  "np_convolve_same a v = Inr ys \<Longrightarrow> length ys = max (length a) (length v)"
  by (auto simp: np_convolve_same_def split: if_splits)

lemma preprocess_body_empty: "preprocess_body [] = Inl ValueError_zero_size"
  by (simp add: preprocess_body_def normalize_empty)

lemma np_convolve_same_ok:
  "a \<noteq> [] \<Longrightarrow> v \<noteq> [] \<Longrightarrow>
   \<exists>ys. np_convolve_same a v = Inr ys \<and> length ys = max (length a) (length v)"
  by (simp add: np_convolve_same_def)

lemma preprocess_body_nonempty:
  assumes "signal \<noteq> []"
  shows "\<exists>ys. preprocess_body signal = Inr ys \<and> length ys = length signal"
proof -
  obtain ns where ns: "normalize_signal signal = Inr ns" "length ns = length signal"
    using assms normalize_nonempty by fastforce
  define w where "w = min 100 (length ns div 10)"
  show ?thesis
  proof (cases "w > 1")
    case False
    then show ?thesis using ns by (simp add: preprocess_body_def Let_def w_def)
  next
    case True
    have body: "preprocess_body signal = np_convolve_same ns (replicate w (1 / real w))"
      using True ns(1) by (simp add: preprocess_body_def Let_def w_def)
    have w: "w \<le> length ns" by (simp add: w_def)
    have "ns \<noteq> []" "replicate w (1 / real w) \<noteq> []" using True w by auto
    then obtain ys where "np_convolve_same ns (replicate w (1 / real w)) = Inr ys"
        "length ys = max (length ns) (length (replicate w (1 / real w)))"
      using np_convolve_same_ok by blast
    then show ?thesis using body w ns(2) by simp
  qed
qed

lemma preprocess_body_Inl_iff: "(\<exists>e. preprocess_body signal = Inl e) \<longleftrightarrow> signal = []"
  using preprocess_body_empty preprocess_body_nonempty by (metis Inl_Inr_False)

lemma preprocess_signal_length: "length (preprocess_signal signal) = length signal"
proof (cases "signal = []")
  case True
  then show ?thesis by (simp add: preprocess_signal_def preprocess_body_empty)
next
  case False
  then obtain ys where "preprocess_body signal = Inr ys" "length ys = length signal"
    using preprocess_body_nonempty by blast
  then show ?thesis by (simp add: preprocess_signal_def)
qed

lemma preprocess_signal_raises:
  "preprocess_body signal = Inl e \<Longrightarrow> preprocess_signal signal = map Fin signal"
  by (simp add: preprocess_signal_def)

lemma py_int_zero: "py_int 0 = 0"
  by (simp add: py_int_def)

subsection \<open>The claims about synthesis\<close>

lemma process_signal_negative:
  "py_int (cfg_sample_rate cfg * duration) < 0 \<Longrightarrow>
   process_signal cfg draws max_size now duration = None"
  by (simp add: process_signal_def simulate_negative)

lemma process_signal_too_large:
  "int (min max_size np_max_dimension) < py_int (cfg_sample_rate cfg * duration) \<Longrightarrow>
   process_signal cfg draws max_size now duration = None"
  by (simp add: process_signal_def simulate_too_large)

lemma process_signal_fits:
  assumes "0 \<le> py_int (cfg_sample_rate cfg * duration)"
    and "py_int (cfg_sample_rate cfg * duration) \<le> int (min max_size np_max_dimension)"
  shows "\<exists>r. process_signal cfg draws max_size now duration = Some r
           \<and> length (data r) = nat (py_int (cfg_sample_rate cfg * duration))"
proof -
  obtain zs where "simulate_signal_acquisition cfg draws max_size duration = Some zs"
      "length zs = nat (py_int (cfg_sample_rate cfg * duration))"
    using simulate_fits [OF assms] by blast
  then show ?thesis by (simp add: process_signal_def preprocess_signal_length)
qed

lemma simulate_zero:
  "py_int (cfg_sample_rate cfg * duration) = 0 \<Longrightarrow>
   simulate_signal_acquisition cfg draws max_size duration = Some []"
  by (simp add: simulate_signal_acquisition_def Let_def np_random_normal_def)

text \<open>
  Claim C2, as amended. The number of samples is \<open>int(sample_rate * duration)\<close>, truncated
  toward zero and not rounded (the product is taken over the reals here; the product of the
  floats can fall just below it). The synthesis fails (\<^verbatim>\<open>process_signal\<close> returns \<open>None\<close>) when
  that count is negative and when it is beyond the largest array that NumPy and the machine
  can hold; for every other count a record is returned whose number of samples is the count.
  So a returned record has at least one sample whenever the count is not 0, and a count of 0
  gives a record without samples, not a failure.
\<close>

theorem synthesize_sample_count:
  "(py_int (cfg_sample_rate cfg * duration) < 0 \<longrightarrow>
      process_signal cfg draws max_size now duration = None)
   \<and> (int (min max_size np_max_dimension) < py_int (cfg_sample_rate cfg * duration) \<longrightarrow>
        process_signal cfg draws max_size now duration = None)
   \<and> (0 \<le> py_int (cfg_sample_rate cfg * duration)
        \<and> py_int (cfg_sample_rate cfg * duration) \<le> int (min max_size np_max_dimension) \<longrightarrow>
        (\<exists>r. process_signal cfg draws max_size now duration = Some r
           \<and> length (data r) = nat (py_int (cfg_sample_rate cfg * duration))))
   \<and> (py_int (cfg_sample_rate cfg * duration) = 0 \<longrightarrow>
        (\<exists>r. process_signal cfg draws max_size now duration = Some r \<and> data r = []))
   \<and> (py_int (cfg_sample_rate cfg * duration) \<noteq> 0 \<longrightarrow>
        synthesis_result_nonempty (process_signal cfg draws max_size now duration))"
proof (intro conjI impI)
  assume "py_int (cfg_sample_rate cfg * duration) < 0"
  then show "process_signal cfg draws max_size now duration = None"
    by (rule process_signal_negative)
next
  assume "int (min max_size np_max_dimension) < py_int (cfg_sample_rate cfg * duration)"
  then show "process_signal cfg draws max_size now duration = None"
    by (rule process_signal_too_large)
next
  assume "0 \<le> py_int (cfg_sample_rate cfg * duration)
        \<and> py_int (cfg_sample_rate cfg * duration) \<le> int (min max_size np_max_dimension)"
  then show "\<exists>r. process_signal cfg draws max_size now duration = Some r
           \<and> length (data r) = nat (py_int (cfg_sample_rate cfg * duration))"
    using process_signal_fits by blast
next
  assume z: "py_int (cfg_sample_rate cfg * duration) = 0"
  then show "\<exists>r. process_signal cfg draws max_size now duration = Some r \<and> data r = []"
    by (simp add: process_signal_def simulate_zero preprocess_signal_def preprocess_body_empty)
next
  assume nz: "py_int (cfg_sample_rate cfg * duration) \<noteq> 0"
  show "synthesis_result_nonempty (process_signal cfg draws max_size now duration)"
  proof (cases "0 \<le> py_int (cfg_sample_rate cfg * duration)
        \<and> py_int (cfg_sample_rate cfg * duration) \<le> int (min max_size np_max_dimension)")
    case False
    then have "process_signal cfg draws max_size now duration = None"
      using process_signal_negative process_signal_too_large
      by (metis not_le_imp_less)
    then show ?thesis by (simp add: synthesis_result_nonempty_def)
  next
    case True
    then obtain r where "process_signal cfg draws max_size now duration = Some r"
        "length (data r) = nat (py_int (cfg_sample_rate cfg * duration))"
      using process_signal_fits by blast
    moreover have "0 < nat (py_int (cfg_sample_rate cfg * duration))"
      using nz True by simp
    ultimately show ?thesis
      by (auto simp: synthesis_result_nonempty_def)
  qed
qed

text \<open>
  The theorem of C2 for the default configuration on a machine that holds a million
  samples: ten sample periods give ten samples, and ten seconds give a failure.
\<close>

theorem synthesize_sample_count_witness:
  "(\<exists>r. process_signal DEFAULT_RADIO_CONFIG zero_draws 1000000 0 (1 / 240000) = Some r
       \<and> length (data r) = 10)
   \<and> process_signal DEFAULT_RADIO_CONFIG zero_draws 1000000 0 10 = None"
  using synthesize_sample_count [of DEFAULT_RADIO_CONFIG "1 / 240000" zero_draws 1000000 0]
    synthesize_sample_count [of DEFAULT_RADIO_CONFIG 10 zero_draws 1000000 0]
  by (simp add: DEFAULT_RADIO_CONFIG_def py_int_def np_max_dimension_def)

text \<open>
  Claim C2 as stated fails. A zero-duration synthesis returns a record, and the record has
  no samples. And the count is not rounded: at the default rate of 2.4 MHz a duration of a
  quarter of a microsecond has \<open>round(0.6) = 1\<close> sample by the specification, while the code
  returns a record without samples.
\<close>

theorem zero_duration_gives_empty_record:
  "\<not> synthesis_result_nonempty (process_signal DEFAULT_RADIO_CONFIG zero_draws 1000000 0 0)
   \<and> spec_numSamples (cfg_sample_rate DEFAULT_RADIO_CONFIG) (1 / 4000000) = 1
   \<and> process_signal DEFAULT_RADIO_CONFIG zero_draws 1000000 0 (1 / 4000000)
       = Some \<lparr> data = [], sample_rate = 2400000, center_freq = 98700000, timestamp = 0,
                metadata = [(''device_id'', PyStr ''rtl-sdr-01''), (''gain'', PyStr ''auto''),
                            (''duration'', PyFloat (1 / 4000000)),
                            (''data_type'', PyStr ''complex64'')] \<rparr>"
proof -
  have z: "py_int (cfg_sample_rate DEFAULT_RADIO_CONFIG * 0) = 0"
    by (simp add: py_int_def)
  have q: "py_int (cfg_sample_rate DEFAULT_RADIO_CONFIG * (1 / 4000000)) = 0"
    by (simp add: py_int_def DEFAULT_RADIO_CONFIG_def)
  have r: "spec_numSamples (cfg_sample_rate DEFAULT_RADIO_CONFIG) (1 / 4000000) = 1"
    by (simp add: spec_numSamples_def DEFAULT_RADIO_CONFIG_def round_def)
  have e0: "data (the (process_signal DEFAULT_RADIO_CONFIG zero_draws 1000000 0 0)) = []"
      "process_signal DEFAULT_RADIO_CONFIG zero_draws 1000000 0 0 \<noteq> None"
    by (simp_all add: process_signal_def simulate_zero [OF z] preprocess_signal_def
          preprocess_body_empty)
  have e1: "process_signal DEFAULT_RADIO_CONFIG zero_draws 1000000 0 (1 / 4000000)
       = Some \<lparr> data = [], sample_rate = cfg_sample_rate DEFAULT_RADIO_CONFIG,
                center_freq = cfg_center_freq DEFAULT_RADIO_CONFIG, timestamp = 0,
                metadata = [(''device_id'', PyStr (cfg_device_id DEFAULT_RADIO_CONFIG)),
                            (''gain'', cfg_gain DEFAULT_RADIO_CONFIG),
                            (''duration'', PyFloat (1 / 4000000)),
                            (''data_type'', PyStr ''complex64'')] \<rparr>"
    by (simp add: process_signal_def simulate_zero [OF q] preprocess_signal_def
          preprocess_body_empty)
  have "\<not> synthesis_result_nonempty (process_signal DEFAULT_RADIO_CONFIG zero_draws 1000000 0 0)"
    using e0 by (auto simp: synthesis_result_nonempty_def)
  then show ?thesis
    using r e1 by (simp add: DEFAULT_RADIO_CONFIG_def)
qed

lemma foldl_np_add_NonFinite_acc: "foldl np_add NonFinite xs = NonFinite"
  by (induction xs) simp_all

lemma foldl_np_add_all_NonFinite:
  "xs \<noteq> [] \<Longrightarrow> \<forall>x \<in> set xs. x = NonFinite \<Longrightarrow> foldl np_add acc xs = NonFinite"
  by (cases xs) (simp_all add: foldl_np_add_NonFinite_acc)

lemma conv_at_NonFinite:
  assumes "j < n" "j \<le> k" "k - j < length v"
  shows "conv_at (replicate n NonFinite) v k = NonFinite"
proof -
  let ?js = "filter (\<lambda>j. j \<le> k \<and> k - j < length v) [0 ..< n]"
  have "j \<in> set ?js" using assms by simp
  then have "0 < length ?js" by (rule length_pos_if_in_set)
  then have ne: "map (\<lambda>j. np_scale (v ! (k - j)) (replicate n NonFinite ! j)) ?js \<noteq> []"
    by simp
  have "\<forall>x \<in> set (map (\<lambda>j. np_scale (v ! (k - j)) (replicate n NonFinite ! j)) ?js). x = NonFinite"
    by auto
  with ne have "foldl np_add (Fin 0)
      (map (\<lambda>j. np_scale (v ! (k - j)) (replicate n NonFinite ! j)) ?js) = NonFinite"
    by (rule foldl_np_add_all_NonFinite)
  then show ?thesis
    unfolding conv_at_def by (simp only: length_replicate)
qed

lemma np_convolve_same_NonFinite:
  assumes "0 < n" "v \<noteq> []"
  shows "np_convolve_same (replicate n NonFinite) v
       = Inr (replicate (max n (length v)) NonFinite)"
proof -
  have "conv_at (replicate n NonFinite) v (i + (min n (length v) - 1) div 2) = NonFinite"
    if "i < max n (length v)" for i
  proof (cases "i < n")
    case True
    have "(min n (length v) - 1) div 2 < length v" using assms by (cases v) auto
    then show ?thesis using True by (intro conv_at_NonFinite [of i]) auto
  next
    case False
    then have nv: "n \<le> i" "i < length v" "min n (length v) = n" using that by auto
    have "i + (n - 1) div 2 - (n - 1) < length v" using nv assms by linarith
    then show ?thesis unfolding nv(3) using assms nv
      by (intro conv_at_NonFinite [of "n - 1"]) auto
  qed
  then have "map (\<lambda>i. conv_at (replicate n NonFinite) v (i + (min n (length v) - 1) div 2))
                [0 ..< max n (length v)] = replicate (max n (length v)) NonFinite"
    by (intro nth_equalityI) auto
  then show ?thesis using assms by (simp add: np_convolve_same_def)
qed

lemma Max_cmod_zero_iff:
  assumes "signal \<noteq> []"
  shows "Max (cmod ` set signal) = 0 \<longleftrightarrow> (\<forall>z \<in> set signal. z = 0)"
proof
  assume m: "Max (cmod ` set signal) = 0"
  show "\<forall>z \<in> set signal. z = 0"
  proof
    fix z assume "z \<in> set signal"
    then have "cmod z \<le> Max (cmod ` set signal)" by simp
    with m show "z = 0" by simp
  qed
next
  assume "\<forall>z \<in> set signal. z = 0"
  then have "cmod ` set signal = {0}" using assms by (cases signal) auto
  then show "Max (cmod ` set signal) = 0" by simp
qed

lemma Max_cmod_nonneg: "signal \<noteq> [] \<Longrightarrow> 0 \<le> Max (cmod ` set signal)"
  by (cases signal) (auto simp: Max_ge_iff)

lemma Max_cmod_scaled:
  assumes "signal \<noteq> []" and "0 < m"
  shows "Max (cmod ` (\<lambda>z. z / complex_of_real m) ` set signal) = Max (cmod ` set signal) / m"
proof -
  have mono: "mono (\<lambda>x::real. x / m)" using assms(2) by (simp add: mono_def divide_right_mono)
  have "cmod ` (\<lambda>z. z / complex_of_real m) ` set signal = (\<lambda>x. x / m) ` cmod ` set signal"
    using assms(2) by (auto simp: image_image norm_divide)
  moreover have "Max ((\<lambda>x. x / m) ` cmod ` set signal) = Max (cmod ` set signal) / m"
    using assms(1) by (intro mono_Max_commute [OF mono, symmetric]) auto
  ultimately show ?thesis by simp
qed

lemma normalize_zeros:
  assumes "0 < n"
  shows "normalize_signal (replicate n 0) = Inr (replicate n NonFinite)"
proof -
  have ne: "replicate n (0::complex) \<noteq> []" using assms by simp
  have "Max (cmod ` set (replicate n (0::complex))) = 0"
    using Max_cmod_zero_iff [OF ne] by simp
  then show ?thesis
    unfolding normalize_nonempty [OF ne] by (simp add: np_divide_def map_replicate_const)
qed

lemma preprocess_zeros:
  assumes "0 < n"
  shows "preprocess_signal (replicate n 0) = replicate n NonFinite"
proof -
  define w where "w = min 100 (n div 10)"
  have w: "w \<le> n" by (simp add: w_def)
  show ?thesis
  proof (cases "w > 1")
    case False
    then show ?thesis
      using assms
      by (simp add: preprocess_signal_def preprocess_body_def normalize_zeros Let_def w_def)
  next
    case True
    then have "replicate w (1 / real w) \<noteq> []" by auto
    then have "np_convolve_same (replicate n NonFinite) (replicate w (1 / real w))
        = Inr (replicate (max n (length (replicate w (1 / real w)))) NonFinite)"
      using assms by (rule np_convolve_same_NonFinite [rotated])
    moreover have "max n (length (replicate w (1 / real w))) = n" using w by simp
    ultimately show ?thesis
      using True assms
      by (simp add: preprocess_signal_def preprocess_body_def normalize_zeros Let_def w_def)
  qed
qed

lemma normalize_positive:
  assumes "signal \<noteq> []" and "\<exists>z \<in> set signal. z \<noteq> 0"
  shows "normalize_signal signal
           = Inr (map (\<lambda>z. Fin (z / complex_of_real (Max (cmod ` set signal)))) signal)"
    and "Max (cmod ` (\<lambda>z. z / complex_of_real (Max (cmod ` set signal))) ` set signal) = 1"
proof -
  have "Max (cmod ` set signal) \<noteq> 0"
    using Max_cmod_zero_iff [OF assms(1)] assms(2) by blast
  then have pos: "0 < Max (cmod ` set signal)"
    using Max_cmod_nonneg [OF assms(1)] by simp
  then show "normalize_signal signal
           = Inr (map (\<lambda>z. Fin (z / complex_of_real (Max (cmod ` set signal)))) signal)"
    unfolding normalize_nonempty [OF assms(1)] by (simp add: np_divide_def)
  show "Max (cmod ` (\<lambda>z. z / complex_of_real (Max (cmod ` set signal))) ` set signal) = 1"
    using Max_cmod_scaled [OF assms(1) pos] pos by simp
qed

text \<open>
  Claim C4, as amended. Normalisation divides every sample by the maximum magnitude of the
  buffer; when some sample is not 0 the maximum magnitude after normalisation is 1. There is
  no guard for a maximum of 0: on a non-empty all-zero buffer the division by zero is carried
  out, every normalised sample is non-finite and so is every sample \<^verbatim>\<open>_preprocess_signal\<close>
  returns. Only on the empty buffer, where \<^verbatim>\<open>np.max\<close> raises, is the input returned as it
  came.
\<close>

theorem normalization_divides_by_max:
  "normalize_signal [] = Inl ValueError_zero_size
   \<and> preprocess_signal [] = []
   \<and> (signal \<noteq> [] \<longrightarrow>
        normalize_signal signal
          = Inr (map (\<lambda>z. np_divide z (Max (cmod ` set signal))) signal))
   \<and> (signal \<noteq> [] \<and> (\<exists>z \<in> set signal. z \<noteq> 0) \<longrightarrow>
        normalize_signal signal
          = Inr (map (\<lambda>z. Fin (z / complex_of_real (Max (cmod ` set signal)))) signal)
        \<and> Max (cmod ` (\<lambda>z. z / complex_of_real (Max (cmod ` set signal))) ` set signal) = 1)
   \<and> (0 < n \<longrightarrow>
        normalize_signal (replicate n 0) = Inr (replicate n NonFinite)
        \<and> preprocess_signal (replicate n 0) = replicate n NonFinite)"
  using normalize_empty normalize_nonempty normalize_positive normalize_zeros preprocess_zeros
  by (simp add: preprocess_signal_def preprocess_body_empty)

text \<open>
  The theorem of C4 at the buffer 2, 1 and at the all-zero buffer of two samples.
\<close>

theorem normalization_divides_by_max_witness:
  "normalize_signal [2, 1] = Inr [Fin 1, Fin (1 / 2)]
   \<and> normalize_signal [0, 0] = Inr [NonFinite, NonFinite]
   \<and> preprocess_signal [0, 0] = [NonFinite, NonFinite]"
proof -
  have a: "[2, 1] \<noteq> ([] :: complex list) \<and> (\<exists>z \<in> set [2, 1 :: complex]. z \<noteq> 0)" by simp
  have m: "Max (cmod ` set [2, 1]) = 2" by simp
  have r: "replicate 2 (0::complex) = [0, 0]" "replicate 2 (NonFinite :: npcomplex) = [NonFinite, NonFinite]"
    by (simp_all add: numeral_2_eq_2)
  show ?thesis
    using normalization_divides_by_max [of "[2, 1]" 2] a unfolding m r
    by (simp add: np_divide_def)
qed

text \<open>
  Claim C4 as stated fails: on the all-zero buffer of one sample the normalisation is not
  skipped, and what \<^verbatim>\<open>_preprocess_signal\<close> returns is not its input.
\<close>

theorem all_zero_buffer_is_divided:
  "normalize_signal [0] = Inr [NonFinite]
   \<and> preprocess_signal [0] = [NonFinite]
   \<and> preprocess_signal [0] \<noteq> map Fin [0]"
  by (simp add: preprocess_signal_def preprocess_body_def normalize_signal_def np_divide_def)

text \<open>
  Claim C10. When the body of \<^verbatim>\<open>_preprocess_signal\<close> raises, the input buffer is returned
  unchanged; the body raises exactly on the empty buffer (\<^verbatim>\<open>np.max\<close> of a zero-size array).
  So when the sample count is 0, \<^verbatim>\<open>process_signal\<close> returns a record, not a failure, whose
  samples are the acquired buffer as it came, neither normalised nor smoothed.
\<close>

theorem preprocess_failure_is_silent:
  "(preprocess_body signal = Inl e \<longrightarrow> preprocess_signal signal = map Fin signal)
   \<and> ((\<exists>e'. preprocess_body signal = Inl e') \<longleftrightarrow> signal = [])
   \<and> preprocess_body [] = Inl ValueError_zero_size
   \<and> (py_int (cfg_sample_rate cfg * duration) = 0 \<longrightarrow>
        simulate_signal_acquisition cfg draws max_size duration = Some []
        \<and> process_signal cfg draws max_size now duration
            = Some \<lparr> data = map Fin [],
                     sample_rate = cfg_sample_rate cfg,
                     center_freq = cfg_center_freq cfg,
                     timestamp = now,
                     metadata = [(''device_id'', PyStr (cfg_device_id cfg)),
                                 (''gain'', cfg_gain cfg),
                                 (''duration'', PyFloat duration),
                                 (''data_type'', PyStr ''complex64'')] \<rparr>)"
  using preprocess_signal_raises preprocess_body_Inl_iff preprocess_body_empty
  by (simp add: process_signal_def simulate_zero preprocess_signal_def)

text \<open>
  The theorem of C10 for the default configuration and a zero duration.
\<close>

theorem preprocess_failure_is_silent_witness:
  "process_signal DEFAULT_RADIO_CONFIG zero_draws 1000000 7 0
     = Some \<lparr> data = [], sample_rate = 2400000, center_freq = 98700000, timestamp = 7,
              metadata = [(''device_id'', PyStr ''rtl-sdr-01''), (''gain'', PyStr ''auto''),
                          (''duration'', PyFloat 0), (''data_type'', PyStr ''complex64'')] \<rparr>
   \<and> preprocess_signal [] = map Fin []"
  using preprocess_failure_is_silent
      [of "[]" ValueError_zero_size DEFAULT_RADIO_CONFIG 0 zero_draws 1000000 7]
  by (simp add: py_int_def DEFAULT_RADIO_CONFIG_def)

section \<open>Properties of the analysis\<close>

subsection \<open>The frequency bins of \<^verbatim>\<open>fftfreq\<close>\<close>

lemma fftfreq_split: "0 < n \<Longrightarrow> (n - 1) div 2 + 1 + n div 2 = (n::nat)"
  by presburger

lemma fftfreq_half: "0 < n \<Longrightarrow> k < (n - 1) div 2 + 1 \<longleftrightarrow> 2 * k < (n::nat)"
  by presburger

lemma np_fftfreq_ok:
  assumes "0 < n" and "d \<noteq> 0"
  shows "\<exists>fs. np_fftfreq n d = Inr fs \<and> length fs = n
           \<and> (\<forall>k < n. fs ! k = (if 2 * k < n then real k / (real n * d)
                                 else (real k - real n) / (real n * d)))"
proof -
  let ?N = "(n - 1) div 2 + 1"
  let ?ks = "[0 .. int ?N - 1] @ [- int (n div 2) .. - 1]"
  let ?fs = "map (\<lambda>k. real_of_int k * (1 / (real n * d))) ?ks"
  have eq: "np_fftfreq n d = Inr ?fs"
    using assms by (simp add: np_fftfreq_def)
  have l1: "length [0 .. int ?N - 1] = ?N" by simp
  have l2: "length [- int (n div 2) .. - 1] = n div 2" by simp
  have len: "length ?ks = n"
    using fftfreq_split [OF assms(1)] by (simp only: length_append l1 l2)
  have nth: "?ks ! k = (if 2 * k < n then int k else int k - int n)" if "k < n" for k
  proof (cases "k < ?N")
    case True
    then have "?ks ! k = [0 .. int ?N - 1] ! k"
      by (simp only: nth_append l1 if_True)
    also have "\<dots> = int k" using True by simp
    finally show ?thesis using True fftfreq_half [OF assms(1)] by simp
  next
    case False
    then have "?ks ! k = [- int (n div 2) .. - 1] ! (k - ?N)"
      by (simp only: nth_append l1 if_False)
    also have "\<dots> = - int (n div 2) + int (k - ?N)"
      using that False fftfreq_split [OF assms(1)] by (intro nth_upto) linarith
    also have "\<dots> = int k - int n"
      using that False fftfreq_split [OF assms(1)] by linarith
    finally show ?thesis using False fftfreq_half [OF assms(1)] by simp
  qed
  have "\<forall>k < n. ?fs ! k = (if 2 * k < n then real k / (real n * d)
                                 else (real k - real n) / (real n * d))"
  proof (intro allI impI)
    fix k assume k: "k < n"
    then have "?fs ! k = real_of_int (?ks ! k) * (1 / (real n * d))"
      using len by (simp only: nth_map)
    then show "?fs ! k = (if 2 * k < n then real k / (real n * d)
                                 else (real k - real n) / (real n * d))"
      unfolding nth [OF k] by simp
  qed
  then show ?thesis using eq len by (intro exI [of _ ?fs]) (simp only: length_map simp_thms)
qed

subsection \<open>The first maximum of \<^verbatim>\<open>argmax\<close>\<close>

lemma argmax_scan_props:
  assumes "best_i < i" and "pre ! best_i = best" and "length pre = i"
    and "\<forall>j < i. pre ! j \<le> best" and "\<forall>j < best_i. pre ! j < best"
  shows "argmax_scan xs i best_i best < length (pre @ xs)
       \<and> (\<forall>j < length (pre @ xs). (pre @ xs) ! j \<le> (pre @ xs) ! argmax_scan xs i best_i best)
       \<and> (\<forall>j < argmax_scan xs i best_i best.
             (pre @ xs) ! j < (pre @ xs) ! argmax_scan xs i best_i best)"
  using assms
proof (induction xs arbitrary: i best_i best pre)
  case Nil
  then show ?case by simp
next
  case (Cons x xs)
  have app: "pre @ x # xs = (pre @ [x]) @ xs" by simp
  show ?case
  proof (cases "x > best")
    case True
    have "argmax_scan xs (Suc i) i x < length ((pre @ [x]) @ xs)
       \<and> (\<forall>j < length ((pre @ [x]) @ xs). ((pre @ [x]) @ xs) ! j \<le> ((pre @ [x]) @ xs) ! argmax_scan xs (Suc i) i x)
       \<and> (\<forall>j < argmax_scan xs (Suc i) i x.
             ((pre @ [x]) @ xs) ! j < ((pre @ [x]) @ xs) ! argmax_scan xs (Suc i) i x)"
    proof (rule Cons.IH)
      show "i < Suc i" by simp
      show "(pre @ [x]) ! i = x" using Cons.prems(3) by (auto simp: nth_append)
      show "length (pre @ [x]) = Suc i" using Cons.prems(3) by simp
      show "\<forall>j < Suc i. (pre @ [x]) ! j \<le> x"
        using Cons.prems(3,4) True by (auto simp: nth_append less_Suc_eq)
      show "\<forall>j < i. (pre @ [x]) ! j < x"
        using Cons.prems(3,4) True by (auto simp: nth_append)
    qed
    then show ?thesis unfolding app using True by simp
  next
    case False
    have "argmax_scan xs (Suc i) best_i best < length ((pre @ [x]) @ xs)
       \<and> (\<forall>j < length ((pre @ [x]) @ xs). ((pre @ [x]) @ xs) ! j \<le> ((pre @ [x]) @ xs) ! argmax_scan xs (Suc i) best_i best)
       \<and> (\<forall>j < argmax_scan xs (Suc i) best_i best.
             ((pre @ [x]) @ xs) ! j < ((pre @ [x]) @ xs) ! argmax_scan xs (Suc i) best_i best)"
    proof (rule Cons.IH)
      show "best_i < Suc i" using Cons.prems(1) by simp
      show "(pre @ [x]) ! best_i = best" using Cons.prems(1,2,3) by (simp add: nth_append)
      show "length (pre @ [x]) = Suc i" using Cons.prems(3) by simp
      show "\<forall>j < Suc i. (pre @ [x]) ! j \<le> best"
        using Cons.prems(3,4) False by (auto simp: nth_append less_Suc_eq)
      show "\<forall>j < best_i. (pre @ [x]) ! j < best"
        using Cons.prems(1,3,5) by (auto simp: nth_append)
    qed
    then show ?thesis unfolding app using False by simp
  qed
qed

lemma np_argmax_first_max:
  assumes "xs \<noteq> []"
  shows "\<exists>k. np_argmax xs = Inr k \<and> k < length xs \<and> xs ! k = Max (set xs)
           \<and> (\<forall>j < k. xs ! j < xs ! k)"
proof -
  obtain x ys where xs: "xs = x # ys" using assms by (cases xs) auto
  let ?k = "argmax_scan ys 1 0 x"
  have p: "?k < length ([x] @ ys)
       \<and> (\<forall>j < length ([x] @ ys). ([x] @ ys) ! j \<le> ([x] @ ys) ! ?k)
       \<and> (\<forall>j < ?k. ([x] @ ys) ! j < ([x] @ ys) ! ?k)"
    by (rule argmax_scan_props) simp_all
  then have k: "?k < length xs" "\<forall>j < length xs. xs ! j \<le> xs ! ?k" "\<forall>j < ?k. xs ! j < xs ! ?k"
    unfolding xs by simp_all
  have "xs ! ?k = Max (set xs)"
  proof (rule Max_eqI [symmetric])
    show "finite (set xs)" by simp
    show "xs ! ?k \<in> set xs" using k(1) by simp
    fix y assume "y \<in> set xs"
    then obtain j where "j < length xs" "xs ! j = y" by (auto simp: in_set_conv_nth)
    then show "y \<le> xs ! ?k" using k(2) by auto
  qed
  moreover have "np_argmax xs = Inr ?k" by (simp add: xs)
  ultimately show ?thesis using k(1,3) by blast
qed

subsection \<open>The variance of complex samples\<close>

lemma Re_sum_list: "Re (sum_list zs) = sum_list (map Re zs)"
  by (induction zs) simp_all

lemma Im_sum_list: "Im (sum_list zs) = sum_list (map Im zs)"
  by (induction zs) simp_all

lemma np_mean_complex:
  "zs \<noteq> [] \<Longrightarrow> np_mean zs = Fin (Complex (pop_mean (map Re zs)) (pop_mean (map Im zs)))"
  by (simp add: np_mean_def pop_mean_def complex_eq_iff Re_sum_list Im_sum_list
        Re_divide_of_nat Im_divide_of_nat)

lemma np_var_spec:
  assumes "zs \<noteq> []"
  shows "np_var zs = Fin (spec_variance zs)"
proof -
  let ?a = "pop_mean (map Re zs)" and ?b = "pop_mean (map Im zs)"
  have sq: "(cmod (z - Complex ?a ?b)) ^ 2 = (Re z - ?a) ^ 2 + (Im z - ?b) ^ 2" for z
    by (simp add: cmod_power2)
  have "sum_list (map (\<lambda>z. (cmod (z - Complex ?a ?b)) ^ 2) zs)
      = sum_list (map (\<lambda>z. (Re z - ?a) ^ 2) zs) + sum_list (map (\<lambda>z. (Im z - ?b) ^ 2) zs)"
    unfolding sq by (simp add: sum_list_addf)
  then have "pop_mean (map (\<lambda>z. (cmod (z - Complex ?a ?b)) ^ 2) zs) = spec_variance zs"
    by (simp add: pop_mean_def spec_variance_def pop_var_def comp_def add_divide_distrib)
  then show ?thesis
    using assms by (simp add: np_var_def np_mean_complex np_mean_pop)
qed

lemma pop_mean_nonneg: "\<forall>x \<in> set xs. 0 \<le> x \<Longrightarrow> 0 \<le> pop_mean xs"
  by (simp add: pop_mean_def sum_list_nonneg)

lemma spec_power_nonneg: "0 \<le> spec_power zs"
  unfolding spec_power_def by (rule pop_mean_nonneg) simp

lemma pop_var_nonneg: "0 \<le> pop_var xs"
  unfolding pop_var_def by (rule pop_mean_nonneg) simp

lemma spec_variance_nonneg: "0 \<le> spec_variance zs"
  by (simp add: spec_variance_def pop_var_nonneg)

subsection \<open>The analysis report\<close>

lemma snr_value:
  assumes "0 \<le> P" and "0 \<le> V"
  shows "npf_mul (Fin 10) (np_log10 (npf_div (Fin P) (npf_add (Fin V) (Fin (1 / 10 ^ 10)))))
       = (if 0 < P then Fin (10 * log 10 (P / (V + 1 / 10 ^ 10))) else NonFinite)"
proof -
  have pos: "0 < V + 1 / 10 ^ 10" using assms(2) by (simp add: add_nonneg_pos)
  then have nz: "V + 1 / 10 ^ 10 \<noteq> 0" by simp
  have "0 < P / (V + 1 / 10 ^ 10) \<longleftrightarrow> 0 < P"
    using pos by (simp add: zero_less_divide_iff)
  then show ?thesis using nz by simp
qed

lemma bin_frequency_eq:
  assumes "sr \<noteq> 0" and "0 < n"
  shows "(if 2 * k < n then real k / (real n * (1 / sr)) else (real k - real n) / (real n * (1 / sr)))
       = spec_bin_frequency k n sr"
  using assms by (simp add: spec_bin_frequency_def)

lemma length_dft: "length (dft a) = length a"
  by (simp add: dft_def)

text \<open>
  Claim C6. For a record with at least one sample and a sample rate other than 0 (the
  specification's records have a positive one), and for a transform routine that returns as
  many values as it is given, \<^verbatim>\<open>analyze_signal\<close> returns a report in which the power is
  the mean of the squared magnitudes, the amplitude the mean of the magnitudes, the main
  frequency the bin frequency of the index \<open>k\<close> of the maximum of the spectrum (the
  magnitudes of the transform as the routine returned it), \<open>k\<close> being the lowest index
  that attains the maximum, with bin \<open>k\<close> at \<open>k * sampleRate / N\<close> when \<open>2 k < N\<close> and at
  \<open>(k - N) * sampleRate / N\<close> otherwise, and the signal-to-noise estimate is
  \<open>10 * log10 (power / (variance + 1e-10))\<close> with the variance of the real parts plus that
  of the imaginary parts (for a power of 0 the logarithm is \<open>-inf\<close>, a non-finite value).
\<close>

theorem analysis_report:
  assumes ne: "data r \<noteq> []" and sr: "sample_rate r \<noteq> 0"
    and len: "length (fft (data r)) = length (data r)"
  shows "\<exists>a k. analyze_signal fft r = Some a
           \<and> signal_power a = Fin (spec_power (data r))
           \<and> amplitude a = Fin (spec_amplitude (data r))
           \<and> k < length (data r)
           \<and> map cmod (fft (data r)) ! k = Max (set (map cmod (fft (data r))))
           \<and> (\<forall>j < k. map cmod (fft (data r)) ! j < map cmod (fft (data r)) ! k)
           \<and> main_frequency a = spec_bin_frequency k (length (data r)) (sample_rate r)
           \<and> snr_estimate a
               = (if 0 < spec_power (data r)
                  then Fin (10 * log 10 (spec_power (data r)
                                         / (spec_variance (data r) + 1 / 10 ^ 10)))
                  else NonFinite)
           \<and> spectrum_peak a = Max (set (map cmod (fft (data r))))
           \<and> data_length a = length (data r)"
proof -
  let ?d = "data r"
  let ?sp = "map cmod (fft ?d)"
  have n: "0 < length ?d" using ne by simp
  have fft: "np_fft fft ?d = Inr (fft ?d)" using ne by (simp add: np_fft_def)
  have spne: "?sp \<noteq> []" using ne len by auto
  have d': "1 / sample_rate r \<noteq> 0" using sr by simp
  obtain fs where fs: "np_fftfreq (length ?d) (1 / sample_rate r) = Inr fs"
      "\<forall>k < length ?d. fs ! k
          = (if 2 * k < length ?d then real k / (real (length ?d) * (1 / sample_rate r))
             else (real k - real (length ?d)) / (real (length ?d) * (1 / sample_rate r)))"
    using np_fftfreq_ok [OF n d'] by blast
  obtain k where k: "np_argmax ?sp = Inr k" "k < length ?sp" "?sp ! k = Max (set ?sp)"
      "\<forall>j < k. ?sp ! j < ?sp ! k"
    using np_argmax_first_max [OF spne] by blast
  have kd: "k < length ?d" using k(2) len by simp
  have mx: "np_max ?sp = Inr (Max (set ?sp))"
    using spne by (rule np_max_Max)
  have freq: "fs ! k = spec_bin_frequency k (length ?d) (sample_rate r)"
    using fs(2) kd bin_frequency_eq [OF sr n] by simp
  have pw: "np_mean (map (\<lambda>z. (cmod z) ^ 2) ?d) = Fin (spec_power ?d)"
    using ne by (simp add: np_mean_pop spec_power_def)
  have amp: "np_mean (map cmod ?d) = Fin (spec_amplitude ?d)"
    using ne by (simp add: np_mean_pop spec_amplitude_def)
  have snr: "npf_mul (Fin 10) (np_log10 (npf_div (Fin (spec_power ?d))
                 (npf_add (np_var ?d) (Fin (1 / 10 ^ 10)))))
      = (if 0 < spec_power ?d
         then Fin (10 * log 10 (spec_power ?d / (spec_variance ?d + 1 / 10 ^ 10)))
         else NonFinite)"
    unfolding np_var_spec [OF ne]
    by (rule snr_value [OF spec_power_nonneg spec_variance_nonneg])
  have body: "analyze_body fft r
      = Inr \<lparr> signal_power = Fin (spec_power ?d),
              amplitude = Fin (spec_amplitude ?d),
              main_frequency = spec_bin_frequency k (length ?d) (sample_rate r),
              snr_estimate = (if 0 < spec_power ?d
                 then Fin (10 * log 10 (spec_power ?d / (spec_variance ?d + 1 / 10 ^ 10)))
                 else NonFinite),
              spectrum_peak = Max (set ?sp),
              data_length = length ?d \<rparr>"
    unfolding analyze_body_def Let_def fft sum.case if_not_P [OF sr] fs(1) k(1) mx pw amp freq snr
    by (rule refl)
  define a where "a = the (analyze_signal fft r)"
  have a: "analyze_signal fft r = Some a"
      "signal_power a = Fin (spec_power ?d)" "amplitude a = Fin (spec_amplitude ?d)"
      "main_frequency a = spec_bin_frequency k (length ?d) (sample_rate r)"
      "snr_estimate a = (if 0 < spec_power ?d
         then Fin (10 * log 10 (spec_power ?d / (spec_variance ?d + 1 / 10 ^ 10)))
         else NonFinite)"
      "spectrum_peak a = Max (set ?sp)" "data_length a = length ?d"
    by (simp_all add: a_def analyze_signal_def body)
  show ?thesis
    using a kd k(3,4) by blast
qed

lemma analyze_signal_empty: "data r = [] \<Longrightarrow> analyze_signal fft r = None"
  by (simp add: analyze_signal_def analyze_body_def np_fft_def)

lemma analyze_signal_zero_rate: "sample_rate r = 0 \<Longrightarrow> analyze_signal fft r = None"
  by (simp add: analyze_signal_def analyze_body_def Let_def split: sum.splits)

subsection \<open>The exact transform on two examples\<close>

lemma upt2: "[0 ..< 2] = [0, Suc 0]"
  by (simp add: numeral_2_eq_2)

lemma upt4: "[0 ..< 4] = [0, 1, 2, 3]"
  by (simp add: upt_rec)

lemma cis_neg_pi: "cis (- pi) = - 1"
  by (simp add: cis.ctr complex_eq_iff)

lemma cis_neg_half_pi: "cis (- (pi / 2)) = - \<i>"
  by (simp add: cis.ctr complex_eq_iff)

lemma dft_two: "dft [x, y] = [x + y, x - y]"
  by (simp add: dft_def upt2 cis_neg_pi)

lemma cis_quarter_turns: "cis (- (2 * pi * real m / 4)) = (- \<i>) ^ m"
proof -
  have "cis (- (2 * pi * real m / 4)) = cis (real m * (- (pi / 2)))"
    by (simp add: field_simps)
  also have "\<dots> = cis (- (pi / 2)) ^ m"
    by (simp only: DeMoivre)
  finally show ?thesis by (simp only: cis_neg_half_pi)
qed

lemma cis_more_turns:
  "cis (- (pi * 3 / 2)) = \<i>" "cis (- (3 * pi)) = - 1" "cis (- (pi * 9 / 2)) = - \<i>"
  using cis_quarter_turns [of 3] cis_quarter_turns [of 6] cis_quarter_turns [of 9]
  by (simp_all add: eval_nat_numeral mult.commute)

lemma dft_four_example: "dft [0, 1, 0, - 1] = [0, - (2 * \<i>), 0, 2 * \<i>]"
  unfolding dft_def
  by (simp add: upt4 cis_neg_pi cis_neg_half_pi cis_more_turns)

lemma pop_var_examples:
  "spec_variance [2, - 1] = 9 / 4" "spec_variance [0, 1, 0, - 1] = 1 / 2"
  by (simp_all add: spec_variance_def pop_var_def pop_mean_def power2_eq_square)

text \<open>
  The theorem of C6 for the exact transform \<open>dft\<close> at two records. For the samples 2, -1
  at rate 2 the spectrum is 1, 3: the maximum is at index 1, a bin of the negative half, at
  -1 Hz; the mean of the samples is 1/2 and their variance 9/4. For the samples 0, 1, 0, -1
  at rate 8 the spectrum is 0, 2, 0, 2: the maximum is attained at the indices 1 and 3, and
  the main frequency is that of the lower one, 2 Hz.
\<close>

theorem analysis_report_witness:
  "(\<exists>a. analyze_signal dft \<lparr> data = [2, - 1], sample_rate = 2, center_freq = 1,
                               timestamp = 0, metadata = [] \<rparr> = Some a
       \<and> signal_power a = Fin (5 / 2) \<and> amplitude a = Fin (3 / 2)
       \<and> main_frequency a = - 1
       \<and> snr_estimate a = Fin (10 * log 10 ((5 / 2) / (9 / 4 + 1 / 10 ^ 10)))
       \<and> spectrum_peak a = 3 \<and> data_length a = 2)
   \<and> (\<exists>a. analyze_signal dft \<lparr> data = [0, 1, 0, - 1], sample_rate = 8, center_freq = 1,
                                 timestamp = 0, metadata = [] \<rparr> = Some a
         \<and> signal_power a = Fin (1 / 2) \<and> amplitude a = Fin (1 / 2) \<and> main_frequency a = 2
         \<and> snr_estimate a = Fin (10 * log 10 ((1 / 2) / (1 / 2 + 1 / 10 ^ 10)))
         \<and> spectrum_peak a = 2 \<and> data_length a = 4)"
proof (intro conjI)
  let ?r = "\<lparr> data = [2, - 1], sample_rate = 2, center_freq = 1, timestamp = 0,
               metadata = [] \<rparr> :: complex SignalData"
  have sp: "map cmod (dft (data ?r)) = [1, 3]"
    by (simp add: dft_two)
  obtain a k where a: "analyze_signal dft ?r = Some a"
      "signal_power a = Fin (spec_power (data ?r))"
      "amplitude a = Fin (spec_amplitude (data ?r))"
      "k < length (data ?r)"
      "map cmod (dft (data ?r)) ! k = Max (set (map cmod (dft (data ?r))))"
      "main_frequency a = spec_bin_frequency k (length (data ?r)) (sample_rate ?r)"
      "snr_estimate a
         = (if 0 < spec_power (data ?r)
            then Fin (10 * log 10 (spec_power (data ?r)
                                   / (spec_variance (data ?r) + 1 / 10 ^ 10)))
            else NonFinite)"
      "spectrum_peak a = Max (set (map cmod (dft (data ?r))))"
      "data_length a = length (data ?r)"
    using analysis_report [of ?r dft] by (auto simp: length_dft)
  have "k = 1"
    using a(4,5) unfolding sp by (cases k) auto
  then show "\<exists>a. analyze_signal dft ?r = Some a
       \<and> signal_power a = Fin (5 / 2) \<and> amplitude a = Fin (3 / 2)
       \<and> main_frequency a = - 1
       \<and> snr_estimate a = Fin (10 * log 10 ((5 / 2) / (9 / 4 + 1 / 10 ^ 10)))
       \<and> spectrum_peak a = 3 \<and> data_length a = 2"
    using a unfolding sp
    by (simp add: spec_power_def spec_amplitude_def pop_mean_def spec_bin_frequency_def
          pop_var_examples)
next
  let ?r = "\<lparr> data = [0, 1, 0, - 1], sample_rate = 8, center_freq = 1, timestamp = 0,
               metadata = [] \<rparr> :: complex SignalData"
  have sp: "map cmod (dft (data ?r)) = [0, 2, 0, 2]"
    by (simp add: dft_four_example norm_mult)
  obtain a k where a: "analyze_signal dft ?r = Some a"
      "signal_power a = Fin (spec_power (data ?r))"
      "amplitude a = Fin (spec_amplitude (data ?r))"
      "k < length (data ?r)"
      "map cmod (dft (data ?r)) ! k = Max (set (map cmod (dft (data ?r))))"
      "\<forall>j < k. map cmod (dft (data ?r)) ! j < map cmod (dft (data ?r)) ! k"
      "main_frequency a = spec_bin_frequency k (length (data ?r)) (sample_rate ?r)"
      "snr_estimate a
         = (if 0 < spec_power (data ?r)
            then Fin (10 * log 10 (spec_power (data ?r)
                                   / (spec_variance (data ?r) + 1 / 10 ^ 10)))
            else NonFinite)"
      "spectrum_peak a = Max (set (map cmod (dft (data ?r))))"
      "data_length a = length (data ?r)"
    using analysis_report [of ?r dft] by (auto simp: length_dft)
  have k4: "k < 4" using a(4) by simp
  have "k = 1"
  proof (rule ccontr)
    assume n1: "k \<noteq> 1"
    from k4 consider "k = 0" | "k = 1" | "k = 2" | "k = 3" by linarith
    then show False
    proof cases
      case 1 then show False using a(5) unfolding sp by simp
    next
      case 2 then show False using n1 by simp
    next
      case 3 then show False using a(5) unfolding sp by simp
    next
      case 4
      have "(1::nat) < 3" by simp
      then have "[0, 2, 0, 2 :: real] ! 1 < [0, 2, 0, 2] ! 3"
        using a(6) unfolding sp 4 by blast
      then show False by simp
    qed
  qed
  then show "\<exists>a. analyze_signal dft ?r = Some a
         \<and> signal_power a = Fin (1 / 2) \<and> amplitude a = Fin (1 / 2) \<and> main_frequency a = 2
         \<and> snr_estimate a = Fin (10 * log 10 ((1 / 2) / (1 / 2 + 1 / 10 ^ 10)))
         \<and> spectrum_peak a = 2 \<and> data_length a = 4"
    using a unfolding sp
    by (simp add: spec_power_def spec_amplitude_def pop_mean_def spec_bin_frequency_def
          pop_var_examples)
qed

section \<open>Properties of persistence\<close>

lemma load_absent: "files fs p = None \<Longrightarrow> load_signal_data fs p = None"
  by (simp add: load_signal_data_def load_body_def)

lemma load_not_archive: "files fs p = Some NotNpz \<Longrightarrow> load_signal_data fs p = None"
  by (simp add: load_signal_data_def load_body_def)

lemma load_missing_field:
  "files fs p = Some (Npz z) \<Longrightarrow>
   z_data z = None \<or> z_sample_rate z = None \<or> z_center_freq z = None \<or> z_timestamp z = None \<Longrightarrow>
   load_signal_data fs p = None"
  by (auto simp: load_signal_data_def load_body_def split: option.splits)

lemma load_pickled_metadata:
  "files fs p = Some (Npz z) \<Longrightarrow> z_metadata z = Some m \<Longrightarrow> load_signal_data fs p = None"
  by (auto simp: load_signal_data_def load_body_def npz_object_def split: option.splits)

lemma load_without_metadata:
  "files fs p = Some (Npz z) \<Longrightarrow> z_data z = Some d \<Longrightarrow> z_sample_rate z = Some sr \<Longrightarrow>
   z_center_freq z = Some cf \<Longrightarrow> z_timestamp z = Some ts \<Longrightarrow> z_metadata z = None \<Longrightarrow>
   load_signal_data fs p
     = Some \<lparr> data = d, sample_rate = sr, center_freq = cf, timestamp = ts, metadata = [] \<rparr>"
  by (simp add: load_signal_data_def load_body_def)

lemma save_written:
  assumes "save_signal_data fs r p = (fs', True)"
  shows "\<exists>z. files fs' (npz_name p) = Some (Npz z) \<and> z_metadata z = Some (metadata r)"
    and "\<forall>q. q \<noteq> npz_name p \<longrightarrow> files fs' q = files fs q"
  using assms by (auto simp: save_signal_data_def split: if_splits)

text \<open>
  Claim C1 fails on the code. Whenever \<^verbatim>\<open>save_signal_data\<close> succeeds, loading the file it
  wrote returns \<open>None\<close>, not the record: the archive holds the metadata mapping as a
  pickled array of objects, \<^verbatim>\<open>load_signal_data\<close> calls \<^verbatim>\<open>np.load\<close> with its default
  \<^verbatim>\<open>allow_pickle=False\<close>, reading the metadata raises \<open>ValueError\<close>, and the exception is
  caught. The same holds for the path given to \<^verbatim>\<open>save_signal_data\<close> when no file was there
  before.
\<close>

theorem load_after_save_returns_nothing:
  "save_signal_data fs signal_data file_path = (fs', True) \<longrightarrow>
     load_signal_data fs' (npz_name file_path) = None
     \<and> (files fs file_path = None \<longrightarrow> load_signal_data fs' file_path = None)"
proof (intro impI conjI)
  assume s: "save_signal_data fs signal_data file_path = (fs', True)"
  obtain z where z: "files fs' (npz_name file_path) = Some (Npz z)"
      "z_metadata z = Some (metadata signal_data)"
    using save_written(1) [OF s] by blast
  show w: "load_signal_data fs' (npz_name file_path) = None"
    using z by (rule load_pickled_metadata)
  assume a: "files fs file_path = None"
  show "load_signal_data fs' file_path = None"
  proof (cases "file_path = npz_name file_path")
    case True
    then show ?thesis using w by simp
  next
    case False
    then have "files fs' file_path = None" using save_written(2) [OF s] a by simp
    then show ?thesis by (rule load_absent)
  qed
qed

text \<open>
  The evaluation for C1: on an empty file system, saving the example record to
  \<^verbatim>\<open>test_signal.npz\<close> succeeds and loading that path returns \<open>None\<close>.
\<close>

theorem load_after_save_returns_nothing_witness:
  "snd (save_signal_data empty_fs example_record ''test_signal.npz'')
   \<and> load_signal_data (fst (save_signal_data empty_fs example_record ''test_signal.npz''))
        ''test_signal.npz'' = None"
proof -
  let ?res = "save_signal_data empty_fs example_record ''test_signal.npz''"
  have n: "npz_name ''test_signal.npz'' = ''test_signal.npz''"
    by (simp add: npz_name_def)
  have t: "snd ?res"
    by (simp add: save_signal_data_def empty_fs_def)
  then have s: "?res = (fst ?res, True)"
    by (simp add: prod_eq_iff)
  have "load_signal_data (fst ?res) (npz_name ''test_signal.npz'') = None"
    using load_after_save_returns_nothing
      [of empty_fs example_record "''test_signal.npz''" "fst ?res"] s
    by blast
  then show ?thesis using t unfolding n by simp
qed

text \<open>
  Claim C8, as amended. \<^verbatim>\<open>load_signal_data\<close> returns \<open>None\<close>, one value for every cause,
  when the file is absent, when it is not an archive, and when the archive lacks the samples,
  the sample rate, the centre frequency or the timestamp. The metadata are not required: an
  archive that holds the other four fields and no metadata loads as a record whose metadata
  are the empty mapping.
\<close>

theorem load_failure_is_none:
  "(files fs p = None \<longrightarrow> load_signal_data fs p = None)
   \<and> (files fs p = Some NotNpz \<longrightarrow> load_signal_data fs p = None)
   \<and> (files fs p = Some (Npz z)
        \<and> (z_data z = None \<or> z_sample_rate z = None \<or> z_center_freq z = None
             \<or> z_timestamp z = None) \<longrightarrow>
        load_signal_data fs p = None)
   \<and> (files fs p = Some (Npz z) \<and> z_data z = Some d \<and> z_sample_rate z = Some sr
        \<and> z_center_freq z = Some cf \<and> z_timestamp z = Some ts \<and> z_metadata z = None \<longrightarrow>
        load_signal_data fs p
          = Some \<lparr> data = d, sample_rate = sr, center_freq = cf, timestamp = ts,
                   metadata = [] \<rparr>)"
  using load_absent load_not_archive load_missing_field load_without_metadata
  by blast

text \<open>
  The theorem of C8 at a path with no file and at an archive without samples.
\<close>

theorem load_failure_is_none_witness:
  "load_signal_data empty_fs ''nonexistent.npz'' = None
   \<and> load_signal_data (fs_with ''a.npz'' (Npz archive_without_data)) ''a.npz'' = None"
  using load_failure_is_none [of empty_fs "''nonexistent.npz''"]
    load_failure_is_none [of "fs_with ''a.npz'' (Npz archive_without_data)" "''a.npz''"
      archive_without_data]
  by (simp add: empty_fs_def fs_with_def archive_without_data_def)

text \<open>
  Claim C8 as stated fails. For an archive that lacks the metadata field the specification's
  \<open>Load\<close> fails as corrupt, while \<^verbatim>\<open>load_signal_data\<close> returns a record with the empty
  mapping substituted. And where the specification's \<open>Load\<close> fails as not found for one
  input and as corrupt for another, \<^verbatim>\<open>load_signal_data\<close> returns the same value for both.
\<close>

theorem load_substitutes_missing_metadata:
  "spec_Load (fs_with ''a.npz'' (Npz archive_without_metadata)) ''a.npz'' = Inl Corrupt
   \<and> load_signal_data (fs_with ''a.npz'' (Npz archive_without_metadata)) ''a.npz''
       = Some \<lparr> data = [Fin 1], sample_rate = 2400000, center_freq = 98700000, timestamp = 0,
                metadata = [] \<rparr>
   \<and> spec_Load empty_fs ''nonexistent.npz'' = Inl NotFound
   \<and> spec_Load (fs_with ''a.npz'' (Npz archive_without_data)) ''a.npz'' = Inl Corrupt
   \<and> load_signal_data empty_fs ''nonexistent.npz''
       = load_signal_data (fs_with ''a.npz'' (Npz archive_without_data)) ''a.npz''"
  by (simp add: spec_Load_def load_signal_data_def load_body_def fs_with_def empty_fs_def
        archive_without_metadata_def archive_without_data_def)

end
